theory Spec2Isabelle
  imports Complex_Main
begin

section \<open>JavaScript numbers as the dashboard uses them\<close>

text \<open>
  A value that the code treats as a number is one of \<open>null\<close>, \<open>undefined\<close>, \<open>NaN\<close> or a
  finite number. Finite numbers are rationals, and arithmetic on them is exact except in the
  averages of the insight panel: there every operation is rounded to double precision as
  the program's is, since rounding decides whether a difference reaches the threshold. The
  two infinities are not part of this model.
\<close>

datatype jsnum = JNull | JUndefined | JNaN | JNum rat

text \<open>\<open>ToNumber\<close>: \<open>null\<close> is 0, \<open>undefined\<close> is \<open>NaN\<close> (here \<open>None\<close>).\<close>

fun toNumber :: "jsnum \<Rightarrow> rat option" where
  "toNumber JNull = Some 0"
| "toNumber JUndefined = None"
| "toNumber JNaN = None"
| "toNumber (JNum r) = Some r"

text \<open>The global \<open>isNaN(v)\<close> is \<open>ToNumber(v)\<close> being \<open>NaN\<close>.\<close>

definition isNaN :: "jsnum \<Rightarrow> bool" where
  "isNaN v = (toNumber v = None)"

text \<open>Truthiness, as \<open>!v\<close> and \<open>a && b\<close> test it: \<open>null\<close>, \<open>undefined\<close>, \<open>NaN\<close> and 0 are falsy.\<close>

fun truthy :: "jsnum \<Rightarrow> bool" where
  "truthy (JNum r) = (r \<noteq> 0)"
| "truthy _ = False"

definition js_sub :: "jsnum \<Rightarrow> jsnum \<Rightarrow> jsnum" where
  "js_sub a b = (case (toNumber a, toNumber b) of
      (Some x, Some y) \<Rightarrow> JNum (x - y)
    | _ \<Rightarrow> JNaN)"

definition js_abs :: "jsnum \<Rightarrow> jsnum" where
  "js_abs a = (case toNumber a of Some x \<Rightarrow> JNum \<bar>x\<bar> | None \<Rightarrow> JNaN)"

text \<open>Relational operators: any comparison with \<open>NaN\<close> is false.\<close>

definition js_lt :: "jsnum \<Rightarrow> jsnum \<Rightarrow> bool" where
  "js_lt a b = (case (toNumber a, toNumber b) of (Some x, Some y) \<Rightarrow> x < y | _ \<Rightarrow> False)"

definition js_gt :: "jsnum \<Rightarrow> jsnum \<Rightarrow> bool" where
  "js_gt a b = (case (toNumber a, toNumber b) of (Some x, Some y) \<Rightarrow> x > y | _ \<Rightarrow> False)"

definition js_le :: "jsnum \<Rightarrow> jsnum \<Rightarrow> bool" where
  "js_le a b = (case (toNumber a, toNumber b) of (Some x, Some y) \<Rightarrow> x \<le> y | _ \<Rightarrow> False)"

definition js_ge :: "jsnum \<Rightarrow> jsnum \<Rightarrow> bool" where
  "js_ge a b = (case (toNumber a, toNumber b) of (Some x, Some y) \<Rightarrow> x \<ge> y | _ \<Rightarrow> False)"

section \<open>Double precision\<close>

text \<open>
  The binary exponent of a positive number: the \<open>e\<close> with \<open>2 ^ e \<le> x < 2 ^ (e + 1)\<close>, found by
  halving a number that is at least 1 and by doubling one that is below 1.
\<close>

function up_exponent :: "rat \<Rightarrow> int" where
  "up_exponent x = (if x < 2 then 0 else 1 + up_exponent (x / 2))"
  by pat_completeness auto
termination
proof (relation "measure (\<lambda>x. nat \<lceil>x\<rceil>)")
  show "wf (measure (\<lambda>x. nat \<lceil>x\<rceil>))" by simp
next
  fix x :: rat
  assume "\<not> x < 2"
  then have "x / 2 \<le> x - 1" by simp
  then have "\<lceil>x / 2\<rceil> \<le> \<lceil>x - 1\<rceil>" by (rule ceiling_mono)
  moreover have "0 < \<lceil>x\<rceil>" using \<open>\<not> x < 2\<close> by simp
  ultimately show "(x / 2, x) \<in> measure (\<lambda>x. nat \<lceil>x\<rceil>)" by simp
qed

function down_exponent :: "rat \<Rightarrow> int" where
  "down_exponent x = (if x \<le> 0 \<or> 1 \<le> x then 0 else down_exponent (2 * x) - 1)"
  by pat_completeness auto
termination
proof (relation "measure (\<lambda>x. nat \<lceil>1 / x\<rceil>)")
  show "wf (measure (\<lambda>x. nat \<lceil>1 / x\<rceil>))" by simp
next
  fix x :: rat
  assume a: "\<not> (x \<le> 0 \<or> 1 \<le> x)"
  then have x: "0 < x" "x < 1" by auto
  then have y: "1 < 1 / x" by simp
  have "\<lceil>1 / (2 * x)\<rceil> < \<lceil>1 / x\<rceil>"
  proof (cases "1 / x \<le> 2")
    case True
    then have "1 / (2 * x) \<le> 1" using x by (simp add: field_simps)
    then have "\<lceil>1 / (2 * x)\<rceil> \<le> 1" by (simp add: ceiling_le_iff)
    moreover have "1 < \<lceil>1 / x\<rceil>" using y by (simp add: less_ceiling_iff)
    ultimately show ?thesis by linarith
  next
    case False
    then have "1 / (2 * x) \<le> 1 / x - 1" using x by (simp add: field_simps)
    then have "\<lceil>1 / (2 * x)\<rceil> \<le> \<lceil>1 / x - 1\<rceil>" by (rule ceiling_mono)
    then show ?thesis by simp
  qed
  moreover have "0 < \<lceil>1 / x\<rceil>" using x by simp
  ultimately show "(2 * x, x) \<in> measure (\<lambda>x. nat \<lceil>1 / x\<rceil>)" by simp
qed

definition binade :: "rat \<Rightarrow> int" where
  "binade x = (if 1 \<le> x then up_exponent x else down_exponent x)"

definition pow2 :: "int \<Rightarrow> rat" where
  "pow2 e = (if 0 \<le> e then 2 ^ nat e else 1 / 2 ^ nat (- e))"

text \<open>The nearest integer, a tie going to the even one.\<close>

definition round_half_even :: "rat \<Rightarrow> int" where
  "round_half_even q =
     (let f = \<lfloor>q\<rfloor>; r = q - of_int f
      in if r < 1 / 2 then f else if 1 / 2 < r then f + 1 else if even f then f else f + 1)"

text \<open>
  The double nearest to a number, ties to even: 53 significant bits in the binade of the
  number, and the fixed spacing \<open>2 ^ -1074\<close> below \<open>2 ^ -1022\<close>. A result of \<open>2 ^ 1024\<close> or
  more would be an infinity, which this model does not have; the numbers rounded here are
  sums, quotients and differences of scores, far below that.
\<close>

definition round_to_double :: "rat \<Rightarrow> rat" where
  "round_to_double x =
     (if x = 0 then 0
      else
        let e = max (binade \<bar>x\<bar>) (- 1022);
            ulp = pow2 (e - 52)
        in of_int (round_half_even (x / ulp)) * ulp)"

text \<open>The operators \<open>+\<close> and \<open>-\<close> of the program on two numbers, and \<open>/\<close> by an array length.\<close>

definition double_add :: "jsnum \<Rightarrow> jsnum \<Rightarrow> jsnum" where
  "double_add a b = (case (toNumber a, toNumber b) of
      (Some x, Some y) \<Rightarrow> JNum (round_to_double (x + y))
    | _ \<Rightarrow> JNaN)"

definition double_sub :: "jsnum \<Rightarrow> jsnum \<Rightarrow> jsnum" where
  "double_sub a b = (case (toNumber a, toNumber b) of
      (Some x, Some y) \<Rightarrow> JNum (round_to_double (x - y))
    | _ \<Rightarrow> JNaN)"

definition double_div_length :: "jsnum \<Rightarrow> nat \<Rightarrow> jsnum" where
  "double_div_length a n = (case toNumber a of
      Some x \<Rightarrow> JNum (round_to_double (x / of_nat n))
    | None \<Rightarrow> JNaN)"

section \<open>Score statistics (scoreCalculator.js, dataParser.js)\<close>

text \<open>
  \<open>NORMATIVE_PARAMS[type] || NORMATIVE_PARAMS.standard\<close>: the two keys of the table, and any
  other type name, which falls back to the standard parameters. Names of properties that
  every object inherits (such as \<open>toString\<close>) are not type names of this model.
\<close>

datatype score_type = Standard | Scaled | Unlisted

fun NORMATIVE_PARAMS :: "score_type \<Rightarrow> rat \<times> rat" where
  "NORMATIVE_PARAMS Standard = (100, 15)"
| "NORMATIVE_PARAMS Scaled = (10, 3)"
| "NORMATIVE_PARAMS Unlisted = (100, 15)"

definition calculateZScore :: "jsnum \<Rightarrow> score_type \<Rightarrow> jsnum" where
  "calculateZScore score type =
     (if score = JNull \<or> score = JUndefined \<or> isNaN score then JNull
      else case NORMATIVE_PARAMS type of (mean, sd) \<Rightarrow>
        (case toNumber score of Some x \<Rightarrow> JNum ((x - mean) / sd) | None \<Rightarrow> JNaN))"

definition getNormativeBand :: "jsnum \<Rightarrow> string" where
  "getNormativeBand zScore =
     (if zScore = JNull \<or> zScore = JUndefined \<or> isNaN zScore then ''No Data''
      else if js_le zScore (JNum (-2)) then ''Significantly Below Average''
      else if js_le zScore (JNum (-1)) then ''Below Average''
      else if js_le zScore (JNum 1) then ''Average''
      else if js_le zScore (JNum 2) then ''Above Average''
      else ''Significantly Above Average'')"

text \<open>
  \<open>getScoreInterpretation(score, mean = 100, sd = 15)\<close> of dataParser.js. It guards \<open>null\<close>
  and \<open>undefined\<close> only, so \<open>NaN\<close> fails every comparison and reaches the last label.
  With \<open>sd = 0\<close> the quotient is an infinity or \<open>NaN\<close>; the three outcomes are written out.
\<close>

definition getScoreInterpretation :: "jsnum \<Rightarrow> rat \<Rightarrow> rat \<Rightarrow> string" where
  "getScoreInterpretation score mean sd =
     (if score = JNull \<or> score = JUndefined then ''No Data''
      else case toNumber score of
        None \<Rightarrow> ''Significantly Above Average''
      | Some s \<Rightarrow>
         (if sd = 0 then
            (if s - mean < 0 then ''Significantly Below Average''
             else ''Significantly Above Average'')
          else let z = (s - mean) / sd in
            if z \<le> -2 then ''Significantly Below Average''
            else if z \<le> -1 then ''Below Average''
            else if z \<le> 1 then ''Average''
            else if z \<le> 2 then ''Above Average''
            else ''Significantly Above Average''))"

text \<open>The ordinal position of a band label; any other string is placed after the five.\<close>

definition band_rank :: "string \<Rightarrow> nat" where
  "band_rank b =
     (if b = ''Significantly Below Average'' then 0
      else if b = ''Below Average'' then 1
      else if b = ''Average'' then 2
      else if b = ''Above Average'' then 3
      else if b = ''Significantly Above Average'' then 4
      else 5)"

definition five_bands :: "string list" where
  "five_bands = [''Significantly Below Average'', ''Below Average'', ''Average'',
     ''Above Average'', ''Significantly Above Average'']"


section \<open>Data model\<close>

text \<open>
  One test of one assessment, as \<open>extractTestData\<close> builds it. An absent score is
  \<open>null\<close>, which is distinct from the number 0.
\<close>

record test_data =
  standardScore :: jsnum
  scaledScore :: jsnum
  percentile :: jsnum
  rawScore :: jsnum
  testName :: string

text \<open>
  An assessment record. The date is the time value of the \<open>Date\<close> object (milliseconds), so
  that \<open>new Date(b.date) - new Date(a.date)\<close> is a difference of two integers. The tests
  object keeps its keys in insertion order (no key is an array index), hence an association
  list; \<open>None\<close> is a record that has no \<open>tests\<close> property.
\<close>

record assessment =
  studentId :: string
  studentName :: string
  date :: int
  age :: jsnum
  tests :: "(string \<times> test_data) list option"

text \<open>An entry of the knowledge base (celf_interpretations.json), with the keys of the JSON.\<close>

record score_range =
  min_z :: "rat option"
  max_z :: "rat option"
  min_z_diff :: "rat option"
  max_z_diff :: "rat option"

record entry =
  entry_id :: string
  test_type :: string
  test_abbreviation :: string
  score_range :: "score_range option"
  audience :: string
  title :: string
  summary :: string
  details :: "string option"
  source :: string
  recommendations :: "string list option"

record student =
  student_id :: string
  name :: string

text \<open>The only exception the modelled code can raise: reading a property of \<open>undefined\<close>.\<close>

datatype error = TypeError

text \<open>
  \<open>Array.prototype.sort\<close> is stable and sorts the array it is called on. With the comparator
  \<open>new Date(b.date) - new Date(a.date)\<close> it is the stable sort by descending date, with
  \<open>new Date(a.date) - new Date(b.date)\<close> the stable sort by ascending date.
\<close>

definition sort_latest_first :: "assessment list \<Rightarrow> assessment list" where
  "sort_latest_first xs = sort_key (\<lambda>a. - date a) xs"

definition sort_earliest_first :: "assessment list \<Rightarrow> assessment list" where
  "sort_earliest_first xs = sort_key (\<lambda>a. date a) xs"

text \<open>\<open>t?.standardScore\<close> for a test that may be missing from the tests object.\<close>

definition opt_standardScore :: "test_data option \<Rightarrow> jsnum" where
  "opt_standardScore t = (case t of None \<Rightarrow> JUndefined | Some d \<Rightarrow> standardScore d)"

section \<open>Retrieval engine (retrievalEngine.js)\<close>

definition matchesScoreRange :: "jsnum \<Rightarrow> score_range \<Rightarrow> bool" where
  "matchesScoreRange zScore rng =
     (if zScore = JNull \<or> zScore = JUndefined \<or> isNaN zScore then False
      else if (case min_z rng of Some m \<Rightarrow> js_lt zScore (JNum m) | None \<Rightarrow> False) then False
      else if (case max_z rng of Some m \<Rightarrow> js_gt zScore (JNum m) | None \<Rightarrow> False) then False
      else True)"

definition matchesZDiffRange :: "jsnum \<Rightarrow> score_range \<Rightarrow> bool" where
  "matchesZDiffRange zDiff rng =
     (if zDiff = JNull \<or> zDiff = JUndefined \<or> isNaN zDiff then False
      else if (case min_z_diff rng of Some m \<Rightarrow> js_lt zDiff (JNum m) | None \<Rightarrow> False) then False
      else if (case max_z_diff rng of Some m \<Rightarrow> js_gt zDiff (JNum m) | None \<Rightarrow> False) then False
      else True)"

text \<open>
  The knowledge base is the first argument: the JSON file is imported by the module and is
  read only. The audience is the value after the parameter default has been applied.
\<close>

definition retrieveTestInterpretations ::
  "entry list \<Rightarrow> string \<Rightarrow> string \<Rightarrow> jsnum \<Rightarrow> string \<Rightarrow> entry list" where
  "retrieveTestInterpretations interpretations tName testAbbreviation score aud =
     (if \<not> truthy score \<or> isNaN score then []
      else
        let zScore = calculateZScore score Standard in
        filter (\<lambda>e.
          let testMatch =
            (test_type e = tName \<or>
             test_abbreviation e = testAbbreviation \<or>
             test_type e = ''Composite Comparison'')
          in
            if \<not> testMatch then False
            else if audience e \<noteq> aud then False
            else (case score_range e of
                Some r \<Rightarrow>
                  if test_type e = ''Composite Comparison'' then False
                  else matchesScoreRange zScore r
              | None \<Rightarrow> False)) interpretations)"

definition retrieveCompositeComparisons ::
  "entry list \<Rightarrow> jsnum \<Rightarrow> jsnum \<Rightarrow> string \<Rightarrow> entry list" where
  "retrieveCompositeComparisons interpretations receptiveZScore expressiveZScore aud =
     (if receptiveZScore = JNull \<or> expressiveZScore = JNull then []
      else
        let zDiff = js_sub receptiveZScore expressiveZScore in
        filter (\<lambda>e.
          if test_type e \<noteq> ''Composite Comparison'' then False
          else if audience e \<noteq> aud then False
          else (case score_range e of
              Some r \<Rightarrow> matchesZDiffRange zDiff r
            | None \<Rightarrow> False)) interpretations)"

text \<open>The body of the loop over \<open>Object.entries(latestAssessment.tests)\<close>.\<close>

definition retrieve_for_test :: "entry list \<Rightarrow> string \<Rightarrow> string \<times> test_data \<Rightarrow> entry list" where
  "retrieve_for_test interpretations aud kv =
     (case kv of (testKey, testData) \<Rightarrow>
        if \<not> truthy (standardScore testData) then []
        else
          let tName = (if testName testData = [] then testKey else testName testData) in
          retrieveTestInterpretations interpretations tName testKey (standardScore testData) aud)"

text \<open>
  The result is the returned list together with the caller's array after the call:
  \<open>assessments.sort(...)\<close> sorts the argument itself.
\<close>

definition retrieveAllInterpretations ::
  "entry list \<Rightarrow> assessment list \<Rightarrow> string \<Rightarrow> entry list \<times> assessment list" where
  "retrieveAllInterpretations interpretations assessments aud =
     (if assessments = [] then ([], assessments)
      else
        let sorted = sort_latest_first assessments in
        case sorted of
          [] \<Rightarrow> ([], sorted)
        | latestAssessment # _ \<Rightarrow>
           (case tests latestAssessment of
              None \<Rightarrow> ([], sorted)
            | Some ts \<Rightarrow>
                let allMatches = concat (map (retrieve_for_test interpretations aud) ts);
                    rliTest = map_of ts ''RLI'';
                    eliTest = map_of ts ''ELI'';
                    comparisons =
                      (if truthy (opt_standardScore rliTest) \<and> truthy (opt_standardScore eliTest)
                       then
                         let receptiveZ = calculateZScore (opt_standardScore rliTest) Standard;
                             expressiveZ = calculateZScore (opt_standardScore eliTest) Standard
                         in retrieveCompositeComparisons interpretations receptiveZ expressiveZ aud
                       else [])
                in (allMatches @ comparisons, sorted)))"

subsection \<open>The matching rule in the words of the specification\<close>



subsection \<open>A score of 0 read as a missing score\<close>

text \<open>The stored 0 replaced by \<open>null\<close>, in a score, a test and an assessment.\<close>

definition null_if_zero :: "jsnum \<Rightarrow> jsnum" where
  "null_if_zero v = (if v = JNum 0 then JNull else v)"

definition zero_test :: "string \<times> test_data \<Rightarrow> string \<times> test_data" where
  "zero_test kv = (fst kv, (snd kv)\<lparr>standardScore := null_if_zero (standardScore (snd kv))\<rparr>)"

definition zero_scores_as_null :: "assessment \<Rightarrow> assessment" where
  "zero_scores_as_null a = a\<lparr>tests := map_option (map zero_test) (tests a)\<rparr>"

section \<open>Insight assembler (insightAssembler.js)\<close>

text \<open>
  \<open>x?.toFixed(2) || null\<close>: \<open>null\<close> and \<open>undefined\<close> give \<open>null\<close> (here \<open>None\<close>); a number
  gives its two-decimal text, kept as the number that is printed; \<open>NaN\<close> gives the text
  \<open>NaN\<close>. Both texts are non-empty, so \<open>||\<close> keeps them.
\<close>

datatype fixed_text = Digits rat | NaN_text

fun toFixed_or_null :: "jsnum \<Rightarrow> fixed_text option" where
  "toFixed_or_null JNull = None"
| "toFixed_or_null JUndefined = None"
| "toFixed_or_null JNaN = Some NaN_text"
| "toFixed_or_null (JNum x) = Some (Digits x)"

record insight_text =
  it_title :: string
  it_summary :: string
  it_details :: string
  it_source :: string
  it_recommendations :: "string list"

text \<open>
  The object literal built from a retrieved entry: \<open>entry.details || entry.summary\<close> (an
  empty string is falsy) and \<open>entry.recommendations || []\<close>.
\<close>

definition insight_of_entry :: "entry \<Rightarrow> insight_text" where
  "insight_of_entry e =
     \<lparr>it_title = title e,
      it_summary = summary e,
      it_details = (case details e of None \<Rightarrow> summary e | Some d \<Rightarrow> if d = [] then summary e else d),
      it_source = source e,
      it_recommendations = (case recommendations e of None \<Rightarrow> [] | Some rs \<Rightarrow> rs)\<rparr>"

record test_insight =
  test :: string
  testAbbreviation :: string
  score :: jsnum
  zScore :: "fixed_text option"
  normativeBand :: string
  insights :: "insight_text list"
  retrievedCount :: nat

record comparison =
  comparison_type :: string
  receptiveScore :: jsnum
  expressiveScore :: jsnum
  zDifference :: "fixed_text option"
  comparison_insights :: "insight_text list"
  comparison_retrievedCount :: nat

text \<open>A property of a returned object: not set, set to \<open>null\<close>, or set to a value.\<close>

datatype 'a property = NotSet | IsNull | Value 'a

text \<open>
  The report. \<open>assessmentDate\<close> holds the time value whose ISO text the code stores, and
  \<open>timestamp\<close> is the ISO text of the wall clock, which is an argument of the model.
\<close>

record report =
  report_student :: string
  report_studentId :: "string property"
  report_audience :: string
  assessmentDate :: "int property"
  testInsights :: "test_insight list"
  comparisons :: "comparison list"
  totalRetrieved :: nat
  timestamp :: string

definition assembleComparisonInsights :: "jsnum \<Rightarrow> jsnum \<Rightarrow> entry list \<Rightarrow> comparison option" where
  "assembleComparisonInsights recScore expScore retrievedEntries =
     (if retrievedEntries = [] then None
      else
        let receptiveZ = calculateZScore recScore Standard;
            expressiveZ = calculateZScore expScore Standard;
            zDiff = js_sub receptiveZ expressiveZ
        in Some
          \<lparr>comparison_type = ''composite_comparison'',
           receptiveScore = recScore,
           expressiveScore = expScore,
           zDifference = toFixed_or_null zDiff,
           comparison_insights = map insight_of_entry retrievedEntries,
           comparison_retrievedCount = length retrievedEntries\<rparr>)"

text \<open>
  \<open>testInsights.find(t => t.testAbbreviation === testKey)\<close>, the creation of a missing
  group at the end of the array, and the push of one insight into the group found.
\<close>

fun add_test_insight :: "test_insight list \<Rightarrow> test_insight \<Rightarrow> insight_text \<Rightarrow> test_insight list" where
  "add_test_insight [] fresh i =
     [fresh\<lparr>insights := insights fresh @ [i], retrievedCount := retrievedCount fresh + 1\<rparr>]"
| "add_test_insight (t # ts) fresh i =
     (if testAbbreviation t = testAbbreviation fresh
      then t\<lparr>insights := insights t @ [i], retrievedCount := retrievedCount t + 1\<rparr> # ts
      else t # add_test_insight ts fresh i)"

definition student_name_or_unknown :: "student option \<Rightarrow> string" where
  "student_name_or_unknown st =
     (case st of None \<Rightarrow> ''Unknown'' | Some s \<Rightarrow> if name s = [] then ''Unknown'' else name s)"

definition student_id_or_null :: "student option \<Rightarrow> string property" where
  "student_id_or_null st =
     (case st of None \<Rightarrow> IsNull | Some s \<Rightarrow> if student_id s = [] then IsNull else Value (student_id s))"

text \<open>
  The loop over \<open>allRetrievedEntries\<close>, with the two arrays it fills. Reading
  \<open>latestAssessment.tests[testKey]\<close> raises when the record has no tests object.
\<close>

fun group_entries ::
  "(string \<times> test_data) list option \<Rightarrow> entry list \<Rightarrow> test_insight list \<Rightarrow> entry list
     \<Rightarrow> error + (test_insight list \<times> entry list)" where
  "group_entries latestTests [] tis comparisonEntries = Inr (tis, comparisonEntries)"
| "group_entries latestTests (e # es) tis comparisonEntries =
     (if test_type e = ''Composite Comparison''
      then group_entries latestTests es tis (comparisonEntries @ [e])
      else
        (case latestTests of
           None \<Rightarrow> Inl TypeError
         | Some ts \<Rightarrow>
             let testKey = test_abbreviation e in
             (case map_of ts testKey of
                None \<Rightarrow> group_entries latestTests es tis comparisonEntries
              | Some testData \<Rightarrow>
                  if truthy (standardScore testData) then
                    let fresh =
                      \<lparr>test = test_type e,
                       testAbbreviation = testKey,
                       score = standardScore testData,
                       zScore = toFixed_or_null (calculateZScore (standardScore testData) Standard),
                       normativeBand =
                         getNormativeBand (calculateZScore (standardScore testData) Standard),
                       insights = [],
                       retrievedCount = 0\<rparr>
                    in group_entries latestTests es
                         (add_test_insight tis fresh (insight_of_entry e)) comparisonEntries
                  else group_entries latestTests es tis comparisonEntries)))"

text \<open>The block that fills \<open>comparisons\<close> after the loop.\<close>

definition assemble_comparisons ::
  "(string \<times> test_data) list option \<Rightarrow> entry list \<Rightarrow> error + comparison list" where
  "assemble_comparisons latestTests comparisonEntries =
     (if comparisonEntries = [] then Inr []
      else
        (case latestTests of
           None \<Rightarrow> Inl TypeError
         | Some ts \<Rightarrow>
             let rliTest = map_of ts ''RLI'';
                 eliTest = map_of ts ''ELI''
             in
               if truthy (opt_standardScore rliTest) \<and> truthy (opt_standardScore eliTest) then
                 (case assembleComparisonInsights (opt_standardScore rliTest)
                         (opt_standardScore eliTest) comparisonEntries of
                    None \<Rightarrow> Inr []
                  | Some c \<Rightarrow> Inr [c])
               else Inr []))"

text \<open>
  The result is the report, or the exception raised, together with the caller's array after
  the call. The first argument is the ISO text of the wall clock.
\<close>

definition assembleCompleteReport ::
  "string \<Rightarrow> student option \<Rightarrow> assessment list \<Rightarrow> entry list \<Rightarrow> string
     \<Rightarrow> (error + report) \<times> assessment list" where
  "assembleCompleteReport now st assessments allRetrievedEntries aud =
     (if assessments = [] \<or> allRetrievedEntries = [] then
        (Inr \<lparr>report_student = student_name_or_unknown st,
              report_studentId = NotSet,
              report_audience = aud,
              assessmentDate = NotSet,
              testInsights = [],
              comparisons = [],
              totalRetrieved = 0,
              timestamp = now\<rparr>, assessments)
      else
        let sorted = sort_latest_first assessments in
        (case sorted of
           [] \<Rightarrow> (Inl TypeError, sorted)
         | latestAssessment # _ \<Rightarrow>
            (case group_entries (tests latestAssessment) allRetrievedEntries [] [] of
               Inl err \<Rightarrow> (Inl err, sorted)
             | Inr (tis, comparisonEntries) \<Rightarrow>
                (case assemble_comparisons (tests latestAssessment) comparisonEntries of
                   Inl err \<Rightarrow> (Inl err, sorted)
                 | Inr cs \<Rightarrow>
                    (Inr \<lparr>report_student = student_name_or_unknown st,
                          report_studentId = student_id_or_null st,
                          report_audience = aud,
                          assessmentDate = Value (date latestAssessment),
                          testInsights = tis,
                          comparisons = cs,
                          totalRetrieved = length allRetrievedEntries,
                          timestamp = now\<rparr>, sorted)))))"

section \<open>Insight heuristics (InsightsPanel.jsx)\<close>

fun getNormativeParams :: "score_type \<Rightarrow> rat \<times> rat" where
  "getNormativeParams Scaled = (10, 3)"
| "getNormativeParams _ = (100, 15)"

text \<open>
  The lines of text shown in the panel, kept as their parts: the model does not print numbers.
  A score line is \<open>test: score (interpretation)\<close>; an average line is a label and the
  average; the stronger line names the stronger side and the difference; a progress line is
  \<open>test: direction by |change| points (first, last)\<close>.
\<close>

datatype item =
    Score_line string jsnum string
  | Average_line string jsnum
  | Stronger_line string jsnum
  | Progress_line string string jsnum jsnum jsnum

record insight =
  insight_type :: string
  insight_title :: string
  items :: "item list"

record scored_test =
  st_test :: string
  st_score :: jsnum
  st_interpretation :: string

record progress =
  pr_test :: string
  pr_change :: jsnum
  pr_firstScore :: jsnum
  pr_lastScore :: jsnum
  pr_firstDate :: int
  pr_lastDate :: int

text \<open>\<open>test.testName || key\<close>: an empty name is falsy.\<close>

definition name_or_key :: "string \<Rightarrow> string \<Rightarrow> string" where
  "name_or_key nm key = (if nm = [] then key else nm)"

definition scored :: "string \<times> test_data \<Rightarrow> scored_test" where
  "scored kv = (case kv of (key, t) \<Rightarrow>
     \<lparr>st_test = name_or_key (testName t) key,
      st_score = standardScore t,
      st_interpretation = getScoreInterpretation (standardScore t) 100 15\<rparr>)"

text \<open>
  The sort key of a scored test. The comparators \<open>a.score - b.score\<close> and
  \<open>b.score - a.score\<close> only see scores that passed a numeric comparison, which are numbers.
\<close>

definition score_key :: "scored_test \<Rightarrow> rat" where
  "score_key x = (case toNumber (st_score x) of Some v \<Rightarrow> v | None \<Rightarrow> 0)"

definition receptiveTests :: "string list" where
  "receptiveTests = [''RLI'', ''SC'', ''BC'', ''WC'', ''DPP'', ''PRS'']"

definition expressiveTests :: "string list" where
  "expressiveTests = [''ELI'', ''WS'', ''EV'', ''FD'', ''RS'']"

text \<open>
  \<open>testEntries.filter(([key]) => codes.includes(key)).map(([_, test]) => test.standardScore)
  .filter(score => score !== null)\<close>
\<close>

definition domain_scores :: "string list \<Rightarrow> (string \<times> test_data) list \<Rightarrow> jsnum list" where
  "domain_scores codes testEntries =
     filter (\<lambda>s. s \<noteq> JNull)
       (map (\<lambda>kv. standardScore (snd kv))
         (filter (\<lambda>kv. fst kv \<in> set codes) testEntries))"

text \<open>
  \<open>scores.length > 0 ? scores.reduce((a, b) => a + b, 0) / scores.length : null\<close>. Each
  addition and the division are rounded to double precision; the division is by a positive
  length.
\<close>

definition average :: "jsnum list \<Rightarrow> jsnum" where
  "average scores =
     (if length scores > 0
      then double_div_length (foldl double_add (JNum 0) scores) (length scores)
      else JNull)"

text \<open>\<open>new Set([...a, ...b])\<close> iterates in the order of first insertion.\<close>

fun set_insert_all :: "'a list \<Rightarrow> 'a list \<Rightarrow> 'a list" where
  "set_insert_all seen [] = seen"
| "set_insert_all seen (x # xs) = set_insert_all (if x \<in> set seen then seen else seen @ [x]) xs"

definition object_keys :: "(string \<times> test_data) list option \<Rightarrow> string list" where
  "object_keys ts = (case ts of None \<Rightarrow> [] | Some kvs \<Rightarrow> map fst kvs)"

text \<open>
  The loop over the test keys of the earliest and the latest assessment. Reading
  \<open>firstAssessment.tests[testKey]\<close> or \<open>lastAssessment.tests[testKey]\<close> raises when that
  record has no tests object.
\<close>

fun progress_loop :: "assessment \<Rightarrow> assessment \<Rightarrow> string list \<Rightarrow> progress list \<Rightarrow> error + progress list" where
  "progress_loop firstAssessment lastAssessment [] acc = Inr acc"
| "progress_loop firstAssessment lastAssessment (testKey # keys) acc =
     (case tests firstAssessment of
        None \<Rightarrow> Inl TypeError
      | Some firstTests \<Rightarrow>
         (case tests lastAssessment of
            None \<Rightarrow> Inl TypeError
          | Some lastTests \<Rightarrow>
              let firstScore = opt_standardScore (map_of firstTests testKey);
                  lastScore = opt_standardScore (map_of lastTests testKey)
              in
                if firstScore \<noteq> JNull \<and> lastScore \<noteq> JNull then
                  let change = js_sub lastScore firstScore;
                      tName = (case map_of firstTests testKey of
                                 None \<Rightarrow> testKey
                               | Some t \<Rightarrow> name_or_key (testName t) testKey)
                  in
                    if js_ge (js_abs change) (JNum 5) then
                      progress_loop firstAssessment lastAssessment keys
                        (acc @ [\<lparr>pr_test = tName, pr_change = change,
                                 pr_firstScore = firstScore, pr_lastScore = lastScore,
                                 pr_firstDate = date firstAssessment,
                                 pr_lastDate = date lastAssessment\<rparr>])
                    else progress_loop firstAssessment lastAssessment keys acc
                else progress_loop firstAssessment lastAssessment keys acc))"

text \<open>
  The block \<open>if (assessments.length > 1)\<close>. Its argument is the caller's array as the
  earlier in-place sort left it; the block sorts a copy.
\<close>

definition progressInsights :: "assessment list \<Rightarrow> error + progress list" where
  "progressInsights assessments =
     (if length assessments > 1 then
        let sortedAssessments = sort_earliest_first assessments in
        (case sortedAssessments of
           [] \<Rightarrow> Inl TypeError
         | firstAssessment # _ \<Rightarrow>
             let lastAssessment = last sortedAssessments;
                 testKeys = set_insert_all []
                   (object_keys (tests firstAssessment) @ object_keys (tests lastAssessment))
             in progress_loop firstAssessment lastAssessment testKeys [])
      else Inr [])"

definition below_average_insight :: "scored_test list \<Rightarrow> insight list" where
  "below_average_insight belowAverage =
     (if length belowAverage > 0 then
        [\<lparr>insight_type = ''below-average'', insight_title = ''Areas Needing Support'',
          items = map (\<lambda>i. Score_line (st_test i) (st_score i) (st_interpretation i)) belowAverage\<rparr>]
      else [])"

definition above_average_insight :: "scored_test list \<Rightarrow> insight list" where
  "above_average_insight aboveAverage =
     (if length aboveAverage > 0 then
        [\<lparr>insight_type = ''above-average'', insight_title = ''Relative Strengths'',
          items = map (\<lambda>i. Score_line (st_test i) (st_score i) (st_interpretation i)) aboveAverage\<rparr>]
      else [])"

definition receptive_expressive_insight :: "jsnum \<Rightarrow> jsnum \<Rightarrow> insight list" where
  "receptive_expressive_insight avgReceptive avgExpressive =
     (if avgReceptive \<noteq> JNull \<and> avgExpressive \<noteq> JNull then
        let difference = js_abs (double_sub avgReceptive avgExpressive) in
        if js_ge difference (JNum 10) then
          let stronger = (if js_gt avgReceptive avgExpressive then ''Receptive'' else ''Expressive'') in
          [\<lparr>insight_type = ''receptive-expressive'',
            insight_title = ''Receptive vs Expressive Comparison'',
            items = [Average_line ''Average Receptive'' avgReceptive,
                     Average_line ''Average Expressive'' avgExpressive,
                     Stronger_line stronger difference]\<rparr>]
        else []
      else [])"

text \<open>
  The template text of one progress item:
  \<open>test: direction by |change| points (firstScore, lastScore)\<close>.
\<close>

definition progress_line :: "progress \<Rightarrow> item" where
  "progress_line i =
     (let direction = (if js_gt (pr_change i) (JNum 0) then ''improved'' else ''declined'');
          changeStr = js_abs (pr_change i)
      in Progress_line (pr_test i) direction changeStr (pr_firstScore i) (pr_lastScore i))"

definition progress_insight :: "progress list \<Rightarrow> insight list" where
  "progress_insight ps =
     (if length ps > 0 then
        [\<lparr>insight_type = ''progress'', insight_title = ''Progress Over Time'',
          items = map progress_line ps\<rparr>]
      else [])"

text \<open>
  The function given to \<open>useMemo\<close> in \<open>InsightsPanel\<close>. The result is the list of
  insights, or the exception raised, together with the caller's array after the call.
\<close>

definition insights_of :: "assessment list \<Rightarrow> (error + insight list) \<times> assessment list" where
  "insights_of assessments =
     (if assessments = [] then (Inr [], assessments)
      else
        case getNormativeParams Standard of (mean, sd) \<Rightarrow>
        let sorted = sort_latest_first assessments in
        (case sorted of
           [] \<Rightarrow> (Inr [], sorted)
         | latestAssessment # _ \<Rightarrow>
            let testEntries = (case tests latestAssessment of None \<Rightarrow> [] | Some ts \<Rightarrow> ts);
                belowAverage = sort_key score_key
                  (map scored
                    (filter (\<lambda>kv. standardScore (snd kv) \<noteq> JNull \<and>
                                  js_lt (standardScore (snd kv)) (JNum (mean - sd))) testEntries));
                aboveAverage = sort_key (\<lambda>x. - score_key x)
                  (map scored
                    (filter (\<lambda>kv. standardScore (snd kv) \<noteq> JNull \<and>
                                  js_gt (standardScore (snd kv)) (JNum (mean + sd))) testEntries));
                avgReceptive = average (domain_scores receptiveTests testEntries);
                avgExpressive = average (domain_scores expressiveTests testEntries)
            in
              (case progressInsights sorted of
                 Inl err \<Rightarrow> (Inl err, sorted)
               | Inr ps \<Rightarrow>
                  (Inr (below_average_insight belowAverage @
                        above_average_insight aboveAverage @
                        receptive_expressive_insight avgReceptive avgExpressive @
                        progress_insight ps), sorted))))"

subsection \<open>The heuristics in the words of the specification\<close>





text \<open>
  The average as the program's arithmetic gives it: the sum taken from the left, each
  addition rounded, and the quotient by the count rounded.
\<close>

definition double_sum :: "rat list \<Rightarrow> rat" where
  "double_sum xs = foldl (\<lambda>a b. round_to_double (a + b)) 0 xs"

definition double_mean :: "rat list \<Rightarrow> rat" where
  "double_mean xs = round_to_double (double_sum xs / of_nat (length xs))"






section \<open>Record normalizer (dataParser.js)\<close>

definition TEST_NAMES :: "(string \<times> string) list" where
  "TEST_NAMES =
     [(''SC'', ''Sentence Comprehension''),
      (''WS'', ''Word Structure''),
      (''EV'', ''Expressive Vocabulary''),
      (''FD'', ''Formulated Sentences''),
      (''RS'', ''Recalling Sentences''),
      (''BC'', ''Basic Concepts''),
      (''WC'', ''Word Classes''),
      (''PA'', ''Phonological Awareness''),
      (''DPP'', ''Following Directions''),
      (''PRS'', ''Understanding Spoken Paragraphs''),
      (''CLS'', ''Core Language Score''),
      (''RLI'', ''Receptive Language Index''),
      (''ELI'', ''Expressive Language Index''),
      (''LCI'', ''Language Content Index''),
      (''LSI'', ''Language Structure Index''),
      (''ALRI'', ''Academic Language Readiness Index''),
      (''ErLi'', ''Early Literacy Index'')]"

text \<open>
  Strings are lists of 8-bit characters. \<open>String.prototype.trim\<close> removes white space and
  line terminators from both ends; these are the ones below 256.
\<close>

definition js_whitespace :: "char \<Rightarrow> bool" where
  "js_whitespace c =
     (c \<in> set [CHR 0x09, CHR 0x0A, CHR 0x0B, CHR 0x0C, CHR 0x0D, CHR 0x20, CHR 0xA0])"

definition trim :: "string \<Rightarrow> string" where
  "trim s = rev (dropWhile js_whitespace (rev (dropWhile js_whitespace s)))"

text \<open>The class \<open>\d\<close> of a regular expression without the unicode flag.\<close>

definition is_digit :: "char \<Rightarrow> bool" where
  "is_digit c = (c \<in> set ''0123456789'')"

text \<open>
  The pieces of the two regular expressions. Each gives the ways to match at the start of the
  text, in the order a backtracking matcher tries them, as pairs of the captured text and the
  rest: \<open>\d{1,2}\<close> is greedy, so two digits come before one.
\<close>

fun digits_1_2 :: "string \<Rightarrow> (string \<times> string) list" where
  "digits_1_2 (a # b # r) =
     (if is_digit a \<and> is_digit b then [([a, b], r), ([a], b # r)]
      else if is_digit a then [([a], b # r)]
      else [])"
| "digits_1_2 [a] = (if is_digit a then [([a], [])] else [])"
| "digits_1_2 [] = []"

fun digits_4 :: "string \<Rightarrow> (string \<times> string) list" where
  "digits_4 (a # b # c # d # r) =
     (if is_digit a \<and> is_digit b \<and> is_digit c \<and> is_digit d then [([a, b, c, d], r)] else [])"
| "digits_4 _ = []"

fun literal :: "char \<Rightarrow> string \<Rightarrow> string list" where
  "literal ch (x # r) = (if x = ch then [r] else [])"
| "literal ch [] = []"

text \<open>\<open>/(\d{1,2})\/(\d{1,2})\/(\d{4})/\<close> at the start of the text: the captures (month, day, year).\<close>

definition match_mdy_at :: "string \<Rightarrow> (string \<times> string \<times> string) list" where
  "match_mdy_at s =
     [(m, d, y).
        (m, r1) \<leftarrow> digits_1_2 s, r2 \<leftarrow> literal (CHR ''/'') r1,
        (d, r3) \<leftarrow> digits_1_2 r2, r4 \<leftarrow> literal (CHR ''/'') r3,
        (y, r5) \<leftarrow> digits_4 r4]"

text \<open>\<open>/(\d{4})-(\d{1,2})-(\d{1,2})/\<close> at the start of the text: the captures (year, month, day).\<close>

definition match_ymd_at :: "string \<Rightarrow> (string \<times> string \<times> string) list" where
  "match_ymd_at s =
     [(y, m, d).
        (y, r1) \<leftarrow> digits_4 s, r2 \<leftarrow> literal (CHR ''-'') r1,
        (m, r3) \<leftarrow> digits_1_2 r2, r4 \<leftarrow> literal (CHR ''-'') r3,
        (d, r5) \<leftarrow> digits_1_2 r4]"

text \<open>
  \<open>dateStr.match(format)\<close> for a pattern that is not anchored: the first way to match at the
  leftmost position that has one.
\<close>

fun regex_search :: "(string \<Rightarrow> 'a list) \<Rightarrow> string \<Rightarrow> 'a option" where
  "regex_search alts [] = (case alts [] of x # _ \<Rightarrow> Some x | [] \<Rightarrow> None)"
| "regex_search alts (c # r) =
     (case alts (c # r) of x # _ \<Rightarrow> Some x | [] \<Rightarrow> regex_search alts r)"

text \<open>The number a text of decimal digits converts to.\<close>

definition digit_value :: "char \<Rightarrow> int" where
  "digit_value c = int (of_char c) - 48"

definition to_number :: "string \<Rightarrow> int" where
  "to_number s = foldl (\<lambda>n c. 10 * n + digit_value c) 0 s"

text \<open>
  \<open>parseDate\<close>. The argument \<open>mkDate\<close> is the constructor \<open>new Date(year, monthIndex, day)\<close>
  of the platform, giving the time value; \<open>None\<close> as a date text is \<open>undefined\<close>.
\<close>

definition parseDate :: "(int \<Rightarrow> int \<Rightarrow> int \<Rightarrow> int) \<Rightarrow> string option \<Rightarrow> int option" where
  "parseDate mkDate dateStr =
     (case dateStr of
        None \<Rightarrow> None
      | Some s \<Rightarrow>
          if s = [] \<or> trim s = [] then None
          else
            (case regex_search match_mdy_at s of
               Some (month, day, year) \<Rightarrow>
                 Some (mkDate (to_number year) (to_number month - 1) (to_number day))
             | None \<Rightarrow>
                (case regex_search match_ymd_at s of
                   Some (year, month, day) \<Rightarrow>
                     Some (mkDate (to_number year) (to_number month - 1) (to_number day))
                 | None \<Rightarrow> None)))"

text \<open>
  \<open>parseNumber\<close>. The argument \<open>parseFloat\<close> is the function of the platform, which gives a
  number or \<open>NaN\<close>; \<open>None\<close> as a value is a column the row does not have.
\<close>

definition parseNumber :: "(string \<Rightarrow> jsnum) \<Rightarrow> string option \<Rightarrow> jsnum" where
  "parseNumber parseFloat v =
     (case v of
        None \<Rightarrow> JNull
      | Some s \<Rightarrow>
          if s = [] \<or> s = [] \<or> s = ''#N/A'' \<or> s = ''-1'' then JNull
          else
            let num = parseFloat s in
            if isNaN num then JNull else num)"

definition extractTestData ::
  "(string \<Rightarrow> jsnum) \<Rightarrow> (string \<rightharpoonup> string) \<Rightarrow> string \<Rightarrow> test_data option" where
  "extractTestData parseFloat row prefix =
     (let standard = parseNumber parseFloat (row (prefix @ ''_StandardScore''));
          scaled = parseNumber parseFloat (row (prefix @ ''_ScaledScore''));
          pct = parseNumber parseFloat (row (prefix @ ''_PctRank''));
          raw = parseNumber parseFloat (row (prefix @ ''_RawScore''))
      in
        if standard = JNull \<and> scaled = JNull then None
        else Some
          \<lparr>standardScore = standard,
           scaledScore = scaled,
           percentile = pct,
           rawScore = raw,
           testName = (case map_of TEST_NAMES prefix of
                         None \<Rightarrow> prefix
                       | Some n \<Rightarrow> if n = [] then prefix else n)\<rparr>)"

text \<open>
  The body of the loop over the rows: no record for a skipped row, one record otherwise.
  \<open>now\<close> is the time value of \<open>new Date()\<close> when the row is processed.
\<close>

definition process_row ::
  "(string \<Rightarrow> jsnum) \<Rightarrow> (int \<Rightarrow> int \<Rightarrow> int \<Rightarrow> int) \<Rightarrow> int \<Rightarrow> (string \<rightharpoonup> string)
     \<Rightarrow> assessment list" where
  "process_row parseFloat mkDate now row =
     (case row ''LT_Id'' of
        None \<Rightarrow> []
      | Some ltId \<Rightarrow>
          if ltId = [] \<or> trim ltId = [] \<or> ltId = ''#N/A'' then []
          else
            let sId = trim ltId;
                sName = (case row ''Child_Initials'' of
                           None \<Rightarrow> ''Student '' @ sId
                         | Some ci \<Rightarrow> if trim ci = [] then ''Student '' @ sId else trim ci);
                d = parseDate mkDate (row ''AssessmentDate'');
                a = parseNumber parseFloat (row ''Age'');
                ts = concat (map (\<lambda>prefix.
                       case extractTestData parseFloat row prefix of
                         None \<Rightarrow> []
                       | Some testData \<Rightarrow> [(prefix, testData)]) (map fst TEST_NAMES))
            in
              if length ts > 0 then
                [\<lparr>studentId = sId,
                  studentName = sName,
                  date = (case d of None \<Rightarrow> now | Some t \<Rightarrow> t),
                  age = a,
                  tests = Some ts\<rparr>]
              else [])"

text \<open>\<open>processCSVData\<close>: the clock gives the reading of \<open>new Date()\<close> at each row.\<close>

definition processCSVData ::
  "(string \<Rightarrow> jsnum) \<Rightarrow> (int \<Rightarrow> int \<Rightarrow> int \<Rightarrow> int) \<Rightarrow> (nat \<Rightarrow> int) \<Rightarrow> (string \<rightharpoonup> string) list
     \<Rightarrow> assessment list" where
  "processCSVData parseFloat mkDate clock rawData =
     concat (map (\<lambda>(i, row). process_row parseFloat mkDate (clock i) row)
       (zip [0..<length rawData] rawData))"

subsection \<open>The two date formats in the words of the specification\<close>

definition digit_text :: "nat \<Rightarrow> nat \<Rightarrow> string \<Rightarrow> bool" where
  "digit_text lo hi s = (lo \<le> length s \<and> length s \<le> hi \<and> list_all is_digit s)"

text \<open>A text that is exactly of the form M/D/YYYY, and one exactly of the form YYYY-M-D.\<close>

definition mdy_format :: "string \<Rightarrow> bool" where
  "mdy_format s =
     (\<exists>m d y. s = m @ ''/'' @ d @ ''/'' @ y \<and> digit_text 1 2 m \<and> digit_text 1 2 d \<and> digit_text 4 4 y)"

definition ymd_format :: "string \<Rightarrow> bool" where
  "ymd_format s =
     (\<exists>y m d. s = y @ ''-'' @ m @ ''-'' @ d \<and> digit_text 4 4 y \<and> digit_text 1 2 m \<and> digit_text 1 2 d)"

text \<open>A text that has a part of one of the two forms somewhere inside it.\<close>

definition contains_date :: "string \<Rightarrow> bool" where
  "contains_date s = (\<exists>pre body post. s = pre @ body @ post \<and> (mdy_format body \<or> ymd_format body))"

section \<open>Example records\<close>

definition test_with :: "jsnum \<Rightarrow> string \<Rightarrow> test_data" where
  "test_with s n =
     \<lparr>standardScore = s, scaledScore = JNull, percentile = JNull, rawScore = JNull, testName = n\<rparr>"

definition visit :: "int \<Rightarrow> (string \<times> test_data) list \<Rightarrow> assessment" where
  "visit d ts = \<lparr>studentId = ''1001'', studentName = ''AB'', date = d, age = JNum 52, tests = Some ts\<rparr>"

definition early_visit :: assessment where
  "early_visit = visit 1000 [(''RLI'', test_with (JNum 80) ''Receptive Language Index'')]"

definition late_visit :: assessment where
  "late_visit = visit 2000 [(''RLI'', test_with (JNum 90) ''Receptive Language Index'')]"

text \<open>A rule of the knowledge base used in the examples: RLI, at most one SD below the mean.\<close>

definition rli_below_avg :: entry where
  "rli_below_avg =
     \<lparr>entry_id = ''receptive_below_avg'',
      test_type = ''Receptive Language Index'',
      test_abbreviation = ''RLI'',
      score_range = Some \<lparr>min_z = None, max_z = Some (-1), min_z_diff = None, max_z_diff = None\<rparr>,
      audience = ''clinician'',
      title = ''Below Average Receptive Language'',
      summary = ''Receptive language is below the average range'',
      details = None,
      source = ''CELF-P3 Technical Manual'',
      recommendations = None\<rparr>"

text \<open>A visit whose RLI score is stored as the number 0.\<close>

definition zero_visit :: assessment where
  "zero_visit = visit 3000 [(''RLI'', test_with (JNum 0) ''Receptive Language Index'')]"






text \<open>A stand-in for \<open>parseFloat\<close> that reads three texts and gives \<open>NaN\<close> for any other.\<close>

definition parseFloat_sample :: "string \<Rightarrow> jsnum" where
  "parseFloat_sample s =
     (if s = ''85'' then JNum 85
      else if s = ''110'' then JNum 110
      else if s = ''-1'' then JNum (-1)
      else JNaN)"

text \<open>A stand-in for the \<open>Date\<close> constructor, and a row whose date text holds no date.\<close>

definition mkDate_sample :: "int \<Rightarrow> int \<Rightarrow> int \<Rightarrow> int" where
  "mkDate_sample y m d = (y * 12 + m) * 31 + d"

definition undated_row :: "string \<rightharpoonup> string" where
  "undated_row =
     map_of [(''LT_Id'', ''1001''), (''AssessmentDate'', ''spring''),
             (''RLI_StandardScore'', ''85'')]"

section \<open>Properties of the score statistics\<close>

lemma getNormativeBand_JNum:
  "getNormativeBand (JNum z) =
     (if z \<le> -2 then ''Significantly Below Average''
      else if z \<le> -1 then ''Below Average''
      else if z \<le> 1 then ''Average''
      else if z \<le> 2 then ''Above Average''
      else ''Significantly Above Average'')"
  by (simp add: getNormativeBand_def isNaN_def js_le_def)

lemma calculateZScore_JNum:
  "calculateZScore (JNum s) t = JNum ((s - fst (NORMATIVE_PARAMS t)) / snd (NORMATIVE_PARAMS t))"
  by (cases t) (simp_all add: calculateZScore_def isNaN_def)

lemma band_rank_getNormativeBand:
  "band_rank (getNormativeBand (JNum z)) =
     (if z \<le> -2 then 0 else if z \<le> -1 then 1 else if z \<le> 1 then 2 else if z \<le> 2 then 3 else 4)"
  by (simp add: getNormativeBand_JNum band_rank_def)

lemma band_rank_mono: "z1 \<le> z2 \<Longrightarrow>
  band_rank (getNormativeBand (JNum z1)) \<le> band_rank (getNormativeBand (JNum z2))"
  unfolding band_rank_getNormativeBand by (simp split: if_splits)

lemma sd_pos: "0 < snd (NORMATIVE_PARAMS t)"
  by (cases t) simp_all

text \<open>
  Claim C2. For every number \<open>z\<close> the band is one of exactly five labels, chosen by the
  thresholds \<open>z \<le> -2\<close>, \<open>-2 < z \<le> -1\<close>, \<open>-1 < z \<le> 1\<close>, \<open>1 < z \<le> 2\<close> and \<open>z > 2\<close>; a
  boundary value belongs to the lower bucket. A standard score of exactly 85 has z-score
  \<open>-1\<close> and the band Below Average.
\<close>

theorem getNormativeBand_five_buckets:
  "(z \<le> -2 \<longrightarrow> getNormativeBand (JNum z) = ''Significantly Below Average'') \<and>
   (-2 < z \<and> z \<le> -1 \<longrightarrow> getNormativeBand (JNum z) = ''Below Average'') \<and>
   (-1 < z \<and> z \<le> 1 \<longrightarrow> getNormativeBand (JNum z) = ''Average'') \<and>
   (1 < z \<and> z \<le> 2 \<longrightarrow> getNormativeBand (JNum z) = ''Above Average'') \<and>
   (2 < z \<longrightarrow> getNormativeBand (JNum z) = ''Significantly Above Average'') \<and>
   getNormativeBand (JNum z) \<in> set five_bands \<and>
   calculateZScore (JNum 85) Standard = JNum (-1) \<and>
   getNormativeBand (calculateZScore (JNum 85) Standard) = ''Below Average''"
  by (simp add: getNormativeBand_JNum calculateZScore_JNum five_bands_def)

theorem getNormativeBand_five_buckets_witness:
  "(-3::rat) \<le> -2 \<and> getNormativeBand (JNum (-3)) = ''Significantly Below Average'' \<and>
   (-2::rat) < -1 \<and> (-1::rat) \<le> -1 \<and> getNormativeBand (JNum (-1)) = ''Below Average'' \<and>
   (-1::rat) < 1 \<and> (1::rat) \<le> 1 \<and> getNormativeBand (JNum 1) = ''Average'' \<and>
   (1::rat) < 2 \<and> (2::rat) \<le> 2 \<and> getNormativeBand (JNum 2) = ''Above Average'' \<and>
   (2::rat) < 5/2 \<and> getNormativeBand (JNum (5/2)) = ''Significantly Above Average''"
  using getNormativeBand_five_buckets [of "-3"] getNormativeBand_five_buckets [of "-1"]
    getNormativeBand_five_buckets [of 1] getNormativeBand_five_buckets [of 2]
    getNormativeBand_five_buckets [of "5/2"]
  by simp

lemma getScoreInterpretation_JNum:
  "sd \<noteq> 0 \<Longrightarrow> getScoreInterpretation (JNum s) mean sd = getNormativeBand (JNum ((s - mean) / sd))"
  by (simp add: getScoreInterpretation_def getNormativeBand_JNum Let_def)

text \<open>
  Claim C9. For scores \<open>s1 \<le> s2\<close> of the same instrument type the band of the z-score of
  \<open>s1\<close> is at most the band of the z-score of \<open>s2\<close> in the ordinal order of the five
  labels, and the composed mapping always lands in one of the five labels. The same holds for
  \<open>getScoreInterpretation\<close> with any mean and any positive standard deviation.
\<close>

theorem band_monotone:
  assumes "s1 \<le> s2"
  shows "band_rank (getNormativeBand (calculateZScore (JNum s1) t))
           \<le> band_rank (getNormativeBand (calculateZScore (JNum s2) t)) \<and>
         getNormativeBand (calculateZScore (JNum s1) t) \<in> set five_bands \<and>
         (0 < sd \<longrightarrow>
            band_rank (getScoreInterpretation (JNum s1) mean sd)
              \<le> band_rank (getScoreInterpretation (JNum s2) mean sd) \<and>
            getScoreInterpretation (JNum s1) mean sd \<in> set five_bands)"
proof -
  have "(s1 - fst (NORMATIVE_PARAMS t)) / snd (NORMATIVE_PARAMS t)
      \<le> (s2 - fst (NORMATIVE_PARAMS t)) / snd (NORMATIVE_PARAMS t)"
    using assms sd_pos [of t] by (simp add: divide_right_mono)
  then have a: "band_rank (getNormativeBand (calculateZScore (JNum s1) t))
           \<le> band_rank (getNormativeBand (calculateZScore (JNum s2) t))"
    unfolding calculateZScore_JNum by (rule band_rank_mono)
  have b: "getNormativeBand (calculateZScore (JNum s1) t) \<in> set five_bands"
    unfolding calculateZScore_JNum by (simp add: getNormativeBand_JNum five_bands_def)
  have c: "band_rank (getScoreInterpretation (JNum s1) mean sd)
           \<le> band_rank (getScoreInterpretation (JNum s2) mean sd)" if "0 < sd"
  proof -
    have "(s1 - mean) / sd \<le> (s2 - mean) / sd"
      using assms that by (simp add: divide_right_mono)
    then show ?thesis
      using that by (simp add: getScoreInterpretation_JNum band_rank_mono)
  qed
  have d: "getScoreInterpretation (JNum s1) mean sd \<in> set five_bands" if "0 < sd"
    using that by (simp add: getScoreInterpretation_JNum getNormativeBand_JNum five_bands_def)
  from a b c d show ?thesis by blast
qed

theorem band_monotone_witness:
  "(85::rat) \<le> 100 \<and> (0::rat) < 15 \<and>
   band_rank (getNormativeBand (calculateZScore (JNum 85) Standard))
     \<le> band_rank (getNormativeBand (calculateZScore (JNum 100) Standard)) \<and>
   getNormativeBand (calculateZScore (JNum 85) Standard) = ''Below Average'' \<and>
   getScoreInterpretation (JNum 85) 100 15 = ''Below Average'' \<and>
   getScoreInterpretation (JNum 100) 100 15 = ''Average''"
proof -
  have h: "(85::rat) \<le> 100" by simp
  show ?thesis
    using band_monotone [OF h, of Standard 15 100]
    by (simp add: calculateZScore_JNum getNormativeBand_JNum getScoreInterpretation_JNum)
qed

section \<open>Properties of the retrieval engine\<close>





lemma insort_key_map_same:
  assumes "\<And>x. k (f x) = k x"
  shows "insort_key k (f x) (map f xs) = map f (insort_key k x xs)"
  by (induction xs) (simp_all add: assms)

lemma sort_key_map_same:
  assumes "\<And>x. k (f x) = k x"
  shows "sort_key k (map f xs) = map f (sort_key k xs)"
  by (induction xs) (simp_all add: insort_key_map_same [of k f, OF assms])

lemma date_zero_scores_as_null: "date (zero_scores_as_null a) = date a"
  by (simp add: zero_scores_as_null_def)

lemma sort_latest_first_zero:
  "sort_latest_first (map zero_scores_as_null xs) = map zero_scores_as_null (sort_latest_first xs)"
  unfolding sort_latest_first_def
  by (rule sort_key_map_same) (simp add: date_zero_scores_as_null)

lemma truthy_null_if_zero: "truthy (null_if_zero v) = truthy v"
  by (cases v) (simp_all add: null_if_zero_def)

lemma null_if_zero_truthy: "truthy v \<Longrightarrow> null_if_zero v = v"
  by (cases v) (simp_all add: null_if_zero_def)

lemma tests_zero: "tests (zero_scores_as_null a) = map_option (map zero_test) (tests a)"
  by (simp add: zero_scores_as_null_def)

lemma retrieve_for_test_zero:
  "retrieve_for_test tbl aud (zero_test kv) = retrieve_for_test tbl aud kv"
  by (cases kv) (simp add: retrieve_for_test_def zero_test_def truthy_null_if_zero null_if_zero_truthy)

lemma map_of_zero: "map_of (map zero_test ts) k = map_option (\<lambda>t. t\<lparr>standardScore := null_if_zero (standardScore t)\<rparr>) (map_of ts k)"
  by (induction ts) (auto simp: zero_test_def)

lemma truthy_opt_zero:
  "truthy (opt_standardScore (map_of (map zero_test ts) k)) = truthy (opt_standardScore (map_of ts k))"
  by (cases "map_of ts k") (simp_all add: map_of_zero opt_standardScore_def truthy_null_if_zero)

lemma opt_zero_truthy:
  "truthy (opt_standardScore (map_of ts k)) \<Longrightarrow>
   opt_standardScore (map_of (map zero_test ts) k) = opt_standardScore (map_of ts k)"
  by (cases "map_of ts k") (simp_all add: map_of_zero opt_standardScore_def null_if_zero_truthy)

lemma comparisons_zero:
  "(if truthy (opt_standardScore (map_of (map zero_test ts) k1)) \<and>
       truthy (opt_standardScore (map_of (map zero_test ts) k2))
    then f (opt_standardScore (map_of (map zero_test ts) k1))
           (opt_standardScore (map_of (map zero_test ts) k2))
    else d) =
   (if truthy (opt_standardScore (map_of ts k1)) \<and> truthy (opt_standardScore (map_of ts k2))
    then f (opt_standardScore (map_of ts k1)) (opt_standardScore (map_of ts k2))
    else d)"
proof (cases "truthy (opt_standardScore (map_of ts k1))")
  case t1: True
  show ?thesis
  proof (cases "truthy (opt_standardScore (map_of ts k2))")
    case True
    with t1 show ?thesis by (simp add: truthy_opt_zero opt_zero_truthy)
  next
    case False
    then show ?thesis by (simp add: truthy_opt_zero)
  qed
next
  case False
  then show ?thesis by (simp add: truthy_opt_zero)
qed

lemma retrieveAll_zero:
  "fst (retrieveAllInterpretations tbl (map zero_scores_as_null xs) aud) =
   fst (retrieveAllInterpretations tbl xs aud)"
proof (cases "sort_latest_first xs")
  case Nil
  then show ?thesis
    by (simp add: retrieveAllInterpretations_def sort_latest_first_zero)
next
  case (Cons a rest)
  show ?thesis
  proof (cases "tests a")
    case None
    with Cons show ?thesis
      by (simp add: retrieveAllInterpretations_def sort_latest_first_zero tests_zero)
  next
    case (Some ts)
    have c: "concat (map (retrieve_for_test tbl aud) (map zero_test ts)) =
             concat (map (retrieve_for_test tbl aud) ts)"
      by (simp add: retrieve_for_test_zero comp_def)
    have d: "(if truthy (opt_standardScore (map_of (map zero_test ts) ''RLI'')) \<and>
                 truthy (opt_standardScore (map_of (map zero_test ts) ''ELI''))
              then retrieveCompositeComparisons tbl
                     (calculateZScore (opt_standardScore (map_of (map zero_test ts) ''RLI'')) Standard)
                     (calculateZScore (opt_standardScore (map_of (map zero_test ts) ''ELI'')) Standard) aud
              else []) =
             (if truthy (opt_standardScore (map_of ts ''RLI'')) \<and>
                 truthy (opt_standardScore (map_of ts ''ELI''))
              then retrieveCompositeComparisons tbl
                     (calculateZScore (opt_standardScore (map_of ts ''RLI'')) Standard)
                     (calculateZScore (opt_standardScore (map_of ts ''ELI'')) Standard) aud
              else [])"
      by (rule comparisons_zero
          [of ts "''RLI''" "''ELI''"
              "\<lambda>a b. retrieveCompositeComparisons tbl (calculateZScore a Standard)
                 (calculateZScore b Standard) aud"])
    from Cons Some show ?thesis
      unfolding retrieveAllInterpretations_def Let_def
      by (simp only: sort_latest_first_zero tests_zero list.simps option.simps c d
          map_is_Nil_conv fst_conv split: if_splits) simp
  qed
qed

lemma group_entries_zero:
  "group_entries (map_option (map zero_test) tso) es tis ces = group_entries tso es tis ces"
proof (induction es arbitrary: tis ces)
  case Nil
  then show ?case by simp
next
  case (Cons e es)
  show ?case
  proof (cases tso)
    case None
    then show ?thesis using Cons by simp
  next
    case (Some ts)
    show ?thesis
    proof (cases "map_of ts (test_abbreviation e)")
      case None
      then show ?thesis using Cons Some by (simp add: map_of_zero)
    next
      case (Some td)
      then show ?thesis using Cons \<open>tso = Some ts\<close>
        by (simp add: map_of_zero truthy_null_if_zero null_if_zero_truthy Let_def)
    qed
  qed
qed

lemma assemble_comparisons_zero:
  "assemble_comparisons (map_option (map zero_test) tso) ces = assemble_comparisons tso ces"
proof (cases tso)
  case None
  then show ?thesis by (simp add: assemble_comparisons_def)
next
  case (Some ts)
  have "(if truthy (opt_standardScore (map_of (map zero_test ts) ''RLI'')) \<and>
            truthy (opt_standardScore (map_of (map zero_test ts) ''ELI''))
         then (case assembleComparisonInsights (opt_standardScore (map_of (map zero_test ts) ''RLI''))
                 (opt_standardScore (map_of (map zero_test ts) ''ELI'')) ces of
                 None \<Rightarrow> Inr [] | Some c \<Rightarrow> Inr [c])
         else (Inr [] :: error + comparison list)) =
        (if truthy (opt_standardScore (map_of ts ''RLI'')) \<and>
            truthy (opt_standardScore (map_of ts ''ELI''))
         then (case assembleComparisonInsights (opt_standardScore (map_of ts ''RLI''))
                 (opt_standardScore (map_of ts ''ELI'')) ces of
                 None \<Rightarrow> Inr [] | Some c \<Rightarrow> Inr [c])
         else Inr [])"
    by (rule comparisons_zero
        [of ts "''RLI''" "''ELI''"
            "\<lambda>a b. case assembleComparisonInsights a b ces of None \<Rightarrow> Inr [] | Some c \<Rightarrow> Inr [c]"])
  with Some show ?thesis
    by (simp add: assemble_comparisons_def Let_def)
qed

lemma assemble_zero:
  "fst (assembleCompleteReport now st (map zero_scores_as_null xs) es aud) =
   fst (assembleCompleteReport now st xs es aud)"
proof (cases "xs = [] \<or> es = []")
  case True
  then show ?thesis by (auto simp: assembleCompleteReport_def)
next
  case False
  show ?thesis
  proof (cases "sort_latest_first xs")
    case Nil
    with False show ?thesis
      by (simp add: assembleCompleteReport_def sort_latest_first_zero)
  next
    case (Cons a rest)
    show ?thesis
    proof (cases "group_entries (tests a) es [] []")
      case (Inl err)
      with False Cons show ?thesis
        by (simp add: assembleCompleteReport_def sort_latest_first_zero tests_zero
            group_entries_zero Let_def)
    next
      case (Inr p)
      obtain tis ces where p: "p = (tis, ces)" by (cases p)
      show ?thesis
      proof (cases "assemble_comparisons (tests a) ces")
        case (Inl err)
        with False Cons Inr p show ?thesis
          by (simp add: assembleCompleteReport_def sort_latest_first_zero tests_zero
              group_entries_zero assemble_comparisons_zero Let_def)
      next
        case cs: (Inr cs)
        with False Cons Inr p show ?thesis
          by (simp add: assembleCompleteReport_def sort_latest_first_zero tests_zero
              group_entries_zero assemble_comparisons_zero date_zero_scores_as_null Let_def)
      qed
    qed
  qed
qed

text \<open>
  Claim C10. A standard score that is exactly 0 is treated like a missing score at every
  matching entry point: \<open>retrieveTestInterpretations\<close> returns the empty list for it, and
  \<open>retrieveAllInterpretations\<close> and \<open>assembleCompleteReport\<close> return what they return when
  each stored 0 is replaced by \<open>null\<close>, for the tests and for the RLI/ELI comparison.
\<close>

theorem zero_score_treated_as_missing:
  "retrieveTestInterpretations tbl tName abbr (JNum 0) aud = [] \<and>
   fst (retrieveAllInterpretations tbl (map zero_scores_as_null xs) aud) =
     fst (retrieveAllInterpretations tbl xs aud) \<and>
   fst (assembleCompleteReport now st (map zero_scores_as_null xs) es aud) =
     fst (assembleCompleteReport now st xs es aud)"
  by (simp add: retrieveAll_zero assemble_zero retrieveTestInterpretations_def)

theorem zero_score_treated_as_missing_witness:
  "retrieveTestInterpretations [rli_below_avg] ''Receptive Language Index'' ''RLI'' (JNum 0)
     ''clinician'' = [] \<and>
   fst (retrieveAllInterpretations [rli_below_avg] [zero_visit] ''clinician'') = []"
  using zero_score_treated_as_missing
    [of "[rli_below_avg]" "''Receptive Language Index''" "''RLI''" "''clinician''"
        "[zero_visit]" "''2026''" None "[rli_below_avg]"]
  by (simp add: retrieveAllInterpretations_def sort_latest_first_def zero_visit_def visit_def
      test_with_def zero_scores_as_null_def zero_test_def null_if_zero_def retrieve_for_test_def
      opt_standardScore_def)

section \<open>Properties of the report assembler\<close>

text \<open>
  Claim C5. For every student and audience, \<open>assembleCompleteReport\<close> on an empty
  sequence of assessments returns a report, raising nothing, whose test insights and
  comparisons are empty and whose total of retrieved entries is 0.
\<close>

theorem assembleCompleteReport_empty:
  "\<exists>r. assembleCompleteReport now st [] es aud = (Inr r, []) \<and>
       testInsights r = [] \<and> comparisons r = [] \<and> totalRetrieved r = 0"
  by (simp add: assembleCompleteReport_def)

section \<open>Properties of the record normalizer\<close>

lemma parseNumber_cases: "parseNumber pf v = JNull \<or> (\<exists>x. parseNumber pf v = JNum x)"
proof (cases v)
  case None
  then show ?thesis by (simp add: parseNumber_def)
next
  case (Some s)
  then show ?thesis
    by (cases "pf s") (simp_all add: parseNumber_def isNaN_def Let_def)
qed

text \<open>
  Claim C4. \<open>parseNumber\<close> maps the empty text, the text \<open>#N/A\<close> and the text \<open>-1\<close> to
  \<open>null\<close>, never to the number -1 and never to \<open>NaN\<close>; no value at all is mapped to
  \<open>NaN\<close>, and a text that \<open>parseFloat\<close> cannot read as a number is mapped to \<open>null\<close>.
\<close>

theorem parseNumber_sentinels:
  "parseNumber pf (Some '''') = JNull \<and>
   parseNumber pf (Some ''#N/A'') = JNull \<and>
   parseNumber pf (Some ''-1'') = JNull \<and>
   parseNumber pf (Some ''-1'') \<noteq> JNum (-1) \<and>
   parseNumber pf v \<noteq> JNaN \<and>
   (isNaN (pf s) \<longrightarrow> parseNumber pf (Some s) = JNull)"
  using parseNumber_cases [of pf v]
  by (auto simp: parseNumber_def)

theorem parseNumber_sentinels_witness:
  "isNaN (parseFloat_sample ''n/a'') \<and> parseNumber parseFloat_sample (Some ''n/a'') = JNull \<and>
   parseFloat_sample ''-1'' = JNum (-1) \<and> parseNumber parseFloat_sample (Some ''-1'') = JNull \<and>
   parseNumber parseFloat_sample (Some ''85'') = JNum 85"
  using parseNumber_sentinels [of parseFloat_sample "Some ''85''" "''n/a''"]
  by (simp add: parseFloat_sample_def isNaN_def parseNumber_def)

section \<open>The caller's array after a call\<close>

text \<open>
  Each of the three derivations leaves the caller's array sorted by descending date: the
  sort is done on the array itself. Only \<open>assembleCompleteReport\<close> called with no retrieved
  entries returns before sorting.
\<close>

lemma retrieveAll_array: "snd (retrieveAllInterpretations tbl xs aud) = sort_latest_first xs"
  by (simp add: retrieveAllInterpretations_def sort_latest_first_def Let_def
      split: list.splits option.splits)

lemma insights_of_array: "snd (insights_of xs) = sort_latest_first xs"
  by (simp add: insights_of_def sort_latest_first_def Let_def
      split: list.splits option.splits sum.splits)

lemma assemble_array:
  "snd (assembleCompleteReport now st xs es aud) = (if es = [] then xs else sort_latest_first xs)"
  by (simp add: assembleCompleteReport_def sort_latest_first_def Let_def
      split: list.splits option.splits sum.splits prod.splits)

lemma sort_two_visits: "sort_latest_first [early_visit, late_visit] = [late_visit, early_visit]"
  by (simp add: sort_latest_first_def early_visit_def late_visit_def visit_def)

lemma two_visits_differ: "late_visit \<noteq> early_visit"
proof -
  have "date late_visit \<noteq> date early_visit"
    by (simp add: early_visit_def late_visit_def visit_def)
  then show ?thesis by (metis (no_types))
qed

text \<open>
  Claim C3 states that after \<open>retrieveAllInterpretations\<close>, \<open>assembleCompleteReport\<close> or the
  insight heuristics the caller's array holds the same records in the same order. The code
  at two visits given in chronological order: each call leaves the array in the opposite
  order.
\<close>

theorem sort_mutates_callers_array:
  "snd (retrieveAllInterpretations tbl [early_visit, late_visit] aud) = [late_visit, early_visit] \<and>
   snd (assembleCompleteReport now st [early_visit, late_visit] [rli_below_avg] aud)
     = [late_visit, early_visit] \<and>
   snd (insights_of [early_visit, late_visit]) = [late_visit, early_visit] \<and>
   [late_visit, early_visit] \<noteq> [early_visit, late_visit]"
  by (simp add: retrieveAll_array insights_of_array assemble_array sort_two_visits two_visits_differ)

section \<open>Properties of the insight heuristics\<close>

text \<open>
  The rounding at known values: one tenth, one third of 190, and two ties at the end of the
  range where every integer is a double.
\<close>

lemma round_to_double_samples:
  "round_to_double (1 / 10) = 3602879701896397 / 36028797018963968"
  "round_to_double (190 / 3) = 8913374262504107 / 140737488355328"
  "round_to_double (9007199254740993) = 9007199254740992"
  "round_to_double (9007199254740995) = 9007199254740996"
  "round_to_double (- (1 / 3)) = - (6004799503160661 / 18014398509481984)"
  by code_simp+





















lemma double_means_of_tie:
  "double_mean [60, 65, 65] = 8913374262504107 / 140737488355328"
  "double_mean [70, 75, 75] = 5160374573028693 / 70368744177664"
  "round_to_double (8913374262504107 / 140737488355328 - 5160374573028693 / 70368744177664)
     = - (1407374883553279 / 140737488355328)"
  by code_simp+















section \<open>Properties of date parsing\<close>

lemma digit_text_1_2:
  "digit_text 1 2 c = ((\<exists>x. c = [x] \<and> is_digit x) \<or> (\<exists>x y. c = [x, y] \<and> is_digit x \<and> is_digit y))"
proof (cases c)
  case Nil
  then show ?thesis by (simp add: digit_text_def)
next
  case (Cons x c1)
  show ?thesis
  proof (cases c1)
    case Nil
    with Cons show ?thesis by (simp add: digit_text_def)
  next
    case (Cons y c2)
    with \<open>c = x # c1\<close> show ?thesis by (cases c2) (auto simp: digit_text_def)
  qed
qed

lemma digit_text_4:
  "digit_text 4 4 c =
     (\<exists>p q r s. c = [p, q, r, s] \<and> is_digit p \<and> is_digit q \<and> is_digit r \<and> is_digit s)"
proof
  assume a: "digit_text 4 4 c"
  then have "length c = 4" by (simp add: digit_text_def)
  then obtain p q r s where "c = [p, q, r, s]"
    by (auto simp: numeral_eq_Suc length_Suc_conv)
  with a show "\<exists>p q r s. c = [p, q, r, s] \<and> is_digit p \<and> is_digit q \<and> is_digit r \<and> is_digit s"
    by (simp add: digit_text_def)
next
  assume "\<exists>p q r s. c = [p, q, r, s] \<and> is_digit p \<and> is_digit q \<and> is_digit r \<and> is_digit s"
  then show "digit_text 4 4 c" by (auto simp: digit_text_def)
qed

lemma set_digits_1_2:
  "((c, r) \<in> set (digits_1_2 s)) = (s = c @ r \<and> digit_text 1 2 c)"
  unfolding digit_text_1_2
  by (induction s rule: digits_1_2.induct) auto

lemma set_digits_4:
  "((c, r) \<in> set (digits_4 s)) = (s = c @ r \<and> digit_text 4 4 c)"
  unfolding digit_text_4
  by (induction s rule: digits_4.induct) auto

lemma set_literal: "(r \<in> set (literal ch s)) = (s = ch # r)"
  by (cases s) auto

lemma slash_not_digit: "\<not> is_digit (CHR ''/'')" "\<not> is_digit (CHR ''-'')"
  by (simp_all add: is_digit_def)

lemma digit_not_separator:
  "is_digit x \<Longrightarrow> (x = CHR ''/'') = False" "is_digit x \<Longrightarrow> (x = CHR ''-'') = False"
  using slash_not_digit by auto

lemma match_mdy_at_exact:
  assumes "digit_text 1 2 m" "digit_text 1 2 d" "digit_text 4 4 y"
  shows "match_mdy_at (m @ ''/'' @ d @ ''/'' @ y @ rest) = [(m, d, y)]"
proof -
  from assms(3) obtain p q r s where y: "y = [p, q, r, s]"
    "is_digit p" "is_digit q" "is_digit r" "is_digit s"
    unfolding digit_text_4 by blast
  from assms(1) consider a where "m = [a]" "is_digit a"
    | a b where "m = [a, b]" "is_digit a" "is_digit b"
    unfolding digit_text_1_2 by blast
  then show ?thesis
  proof cases
    case 1
    from assms(2) consider c where "d = [c]" "is_digit c"
      | c e where "d = [c, e]" "is_digit c" "is_digit e"
      unfolding digit_text_1_2 by blast
    then show ?thesis
    proof cases
      case 1
      with \<open>m = [a]\<close> \<open>is_digit a\<close> y show ?thesis
        by (simp add: match_mdy_at_def slash_not_digit digit_not_separator)
    next
      case 2
      with \<open>m = [a]\<close> \<open>is_digit a\<close> y show ?thesis
        by (simp add: match_mdy_at_def slash_not_digit digit_not_separator)
    qed
  next
    case 2
    from assms(2) consider c where "d = [c]" "is_digit c"
      | c e where "d = [c, e]" "is_digit c" "is_digit e"
      unfolding digit_text_1_2 by blast
    then show ?thesis
    proof cases
      case 1
      with \<open>m = [a, b]\<close> \<open>is_digit a\<close> \<open>is_digit b\<close> y show ?thesis
        by (simp add: match_mdy_at_def slash_not_digit digit_not_separator)
    next
      case 2
      with \<open>m = [a, b]\<close> \<open>is_digit a\<close> \<open>is_digit b\<close> y show ?thesis
        by (simp add: match_mdy_at_def slash_not_digit digit_not_separator)
    qed
  qed
qed

lemma in_comp5:
  "((a0, c0, e0) \<in> set [(a, c, e). (a, r1) \<leftarrow> A, r2 \<leftarrow> B r1, (c, r3) \<leftarrow> C r2, r4 \<leftarrow> D r3, (e, r5) \<leftarrow> E r4]) =
   (\<exists>r1 r2 r3 r4 r5. (a0, r1) \<in> set A \<and> r2 \<in> set (B r1) \<and> (c0, r3) \<in> set (C r2) \<and>
      r4 \<in> set (D r3) \<and> (e0, r5) \<in> set (E r4))"
  by (auto; force)

lemma set_match_mdy_at:
  "((m, d, y) \<in> set (match_mdy_at s)) =
     (\<exists>rest. s = m @ ''/'' @ d @ ''/'' @ y @ rest \<and>
        digit_text 1 2 m \<and> digit_text 1 2 d \<and> digit_text 4 4 y)"
  unfolding match_mdy_at_def in_comp5 set_digits_1_2 set_digits_4 set_literal by auto

lemma set_match_ymd_at:
  "((y, m, d) \<in> set (match_ymd_at s)) =
     (\<exists>rest. s = y @ ''-'' @ m @ ''-'' @ d @ rest \<and>
        digit_text 4 4 y \<and> digit_text 1 2 m \<and> digit_text 1 2 d)"
  unfolding match_ymd_at_def in_comp5 set_digits_1_2 set_digits_4 set_literal by auto

lemma match_mdy_at_nonempty:
  "(match_mdy_at s \<noteq> []) = (\<exists>body rest. s = body @ rest \<and> mdy_format body)"
proof
  assume "match_mdy_at s \<noteq> []"
  then obtain m d y where "(m, d, y) \<in> set (match_mdy_at s)"
    by (cases "match_mdy_at s") auto
  then obtain rest where "s = (m @ ''/'' @ d @ ''/'' @ y) @ rest"
    "digit_text 1 2 m" "digit_text 1 2 d" "digit_text 4 4 y"
    unfolding set_match_mdy_at by auto
  then show "\<exists>body rest. s = body @ rest \<and> mdy_format body"
    unfolding mdy_format_def by blast
next
  assume "\<exists>body rest. s = body @ rest \<and> mdy_format body"
  then obtain m d y rest where "s = m @ ''/'' @ d @ ''/'' @ y @ rest"
    "digit_text 1 2 m" "digit_text 1 2 d" "digit_text 4 4 y"
    unfolding mdy_format_def by auto
  then have "(m, d, y) \<in> set (match_mdy_at s)"
    unfolding set_match_mdy_at by blast
  then show "match_mdy_at s \<noteq> []" by auto
qed

lemma match_ymd_at_nonempty:
  "(match_ymd_at s \<noteq> []) = (\<exists>body rest. s = body @ rest \<and> ymd_format body)"
proof
  assume "match_ymd_at s \<noteq> []"
  then obtain y m d where "(y, m, d) \<in> set (match_ymd_at s)"
    by (cases "match_ymd_at s") auto
  then obtain rest where "s = (y @ ''-'' @ m @ ''-'' @ d) @ rest"
    "digit_text 4 4 y" "digit_text 1 2 m" "digit_text 1 2 d"
    unfolding set_match_ymd_at by auto
  then show "\<exists>body rest. s = body @ rest \<and> ymd_format body"
    unfolding ymd_format_def by blast
next
  assume "\<exists>body rest. s = body @ rest \<and> ymd_format body"
  then obtain y m d rest where "s = y @ ''-'' @ m @ ''-'' @ d @ rest"
    "digit_text 4 4 y" "digit_text 1 2 m" "digit_text 1 2 d"
    unfolding ymd_format_def by auto
  then have "(y, m, d) \<in> set (match_ymd_at s)"
    unfolding set_match_ymd_at by blast
  then show "match_ymd_at s \<noteq> []" by auto
qed

lemma regex_search_None:
  "(regex_search alts s = None) = (\<forall>pre t. s = pre @ t \<longrightarrow> alts t = [])"
proof (induction s)
  case Nil
  then show ?case by (simp split: list.splits)
next
  case (Cons c r)
  show ?case
  proof (cases "alts (c # r)")
    case Nil
    have "(\<forall>pre t. c # r = pre @ t \<longrightarrow> alts t = []) = (\<forall>pre t. r = pre @ t \<longrightarrow> alts t = [])"
    proof
      assume a: "\<forall>pre t. c # r = pre @ t \<longrightarrow> alts t = []"
      show "\<forall>pre t. r = pre @ t \<longrightarrow> alts t = []"
      proof (intro allI impI)
        fix pre t assume "r = pre @ t"
        then have "c # r = (c # pre) @ t" by simp
        with a show "alts t = []" by blast
      qed
    next
      assume a: "\<forall>pre t. r = pre @ t \<longrightarrow> alts t = []"
      show "\<forall>pre t. c # r = pre @ t \<longrightarrow> alts t = []"
      proof (intro allI impI)
        fix pre t assume e: "c # r = pre @ t"
        show "alts t = []"
        proof (cases pre)
          case Nil
          with e \<open>alts (c # r) = []\<close> show ?thesis by simp
        next
          case (Cons p pre')
          with e have "r = pre' @ t" by simp
          with a show ?thesis by blast
        qed
      qed
    qed
    with Nil Cons show ?thesis by simp
  next
    case (Cons x xs)
    then have l: "regex_search alts (c # r) \<noteq> None" by simp
    have "c # r = [] @ (c # r)" by simp
    with Cons have "\<exists>pre t. c # r = pre @ t \<and> alts t \<noteq> []"
      by (metis list.distinct(1))
    then have "\<not> (\<forall>pre t. c # r = pre @ t \<longrightarrow> alts t = [])" by blast
    with l show ?thesis by blast
  qed
qed

lemma regex_search_Some_mem:
  "regex_search alts s = Some x \<Longrightarrow> \<exists>pre t. s = pre @ t \<and> x \<in> set (alts t)"
proof (induction s)
  case Nil
  then show ?case by (auto split: list.splits)
next
  case (Cons c r)
  show ?case
  proof (cases "alts (c # r)")
    case Nil
    with Cons.prems have "regex_search alts r = Some x" by simp
    from Cons.IH [OF this] obtain pre t where "r = pre @ t" "x \<in> set (alts t)" by blast
    then have "c # r = (c # pre) @ t \<and> x \<in> set (alts t)" by simp
    then show ?thesis by blast
  next
    case (Cons y ys)
    with Cons.prems have "x = y" by simp
    with Cons have "c # r = [] @ (c # r) \<and> x \<in> set (alts (c # r))" by simp
    then show ?thesis by blast
  qed
qed

lemma regex_search_mdy:
  "(regex_search match_mdy_at s \<noteq> None) = (\<exists>pre body post. s = pre @ body @ post \<and> mdy_format body)"
  unfolding regex_search_None using match_mdy_at_nonempty by blast

lemma regex_search_ymd:
  "(regex_search match_ymd_at s \<noteq> None) = (\<exists>pre body post. s = pre @ body @ post \<and> ymd_format body)"
  unfolding regex_search_None using match_ymd_at_nonempty by blast

lemma regex_search_here: "alts s = x # xs \<Longrightarrow> regex_search alts s = Some x"
  by (cases s) simp_all

lemma trim_empty: "trim s = [] \<Longrightarrow> \<forall>c\<in>set s. js_whitespace c"
proof -
  assume "trim s = []"
  then have "dropWhile js_whitespace (rev (dropWhile js_whitespace s)) = []"
    by (simp add: trim_def)
  then have a: "\<forall>c\<in>set (dropWhile js_whitespace s). js_whitespace c"
    by (simp add: dropWhile_eq_Nil_conv)
  have "dropWhile js_whitespace s = []"
  proof (rule ccontr)
    assume n: "dropWhile js_whitespace s \<noteq> []"
    then have "\<not> js_whitespace (hd (dropWhile js_whitespace s))" by (rule hd_dropWhile)
    moreover have "hd (dropWhile js_whitespace s) \<in> set (dropWhile js_whitespace s)"
      using n by (rule hd_in_set)
    ultimately show False using a by blast
  qed
  then show ?thesis by (simp add: dropWhile_eq_Nil_conv)
qed

lemma digit_not_whitespace: "is_digit c \<Longrightarrow> \<not> js_whitespace c"
  by (auto simp: is_digit_def js_whitespace_def)

lemma digit_text_has_digit: "digit_text (Suc n) k c \<Longrightarrow> \<exists>x\<in>set c. is_digit x"
  by (cases c) (auto simp: digit_text_def)

lemma contains_date_has_digit:
  assumes "contains_date s"
  shows "\<exists>x\<in>set s. is_digit x"
proof -
  from assms obtain pre body post where s: "s = pre @ body @ post"
    and b: "mdy_format body \<or> ymd_format body"
    unfolding contains_date_def by blast
  from b have "\<exists>x\<in>set body. is_digit x"
  proof
    assume "mdy_format body"
    then obtain m d y where "body = m @ ''/'' @ d @ ''/'' @ y" "digit_text 1 2 m"
      unfolding mdy_format_def by blast
    then show ?thesis using digit_text_has_digit [of 0 2 m] by auto
  next
    assume "ymd_format body"
    then obtain y m d where "body = y @ ''-'' @ m @ ''-'' @ d" "digit_text 1 2 m"
      unfolding ymd_format_def by blast
    then show ?thesis using digit_text_has_digit [of 0 2 m] by auto
  qed
  with s show ?thesis by auto
qed

lemma contains_date_guard:
  assumes "contains_date s"
  shows "\<not> (s = [] \<or> trim s = [])"
proof
  assume "s = [] \<or> trim s = []"
  then have "\<forall>c\<in>set s. js_whitespace c" using trim_empty by auto
  with contains_date_has_digit [OF assms] digit_not_whitespace show False by blast
qed

lemma contains_date_search:
  "contains_date s = (regex_search match_mdy_at s \<noteq> None \<or> regex_search match_ymd_at s \<noteq> None)"
  unfolding regex_search_mdy regex_search_ymd contains_date_def by blast

lemma parseDate_accepts: "(parseDate mk (Some s) \<noteq> None) = contains_date s"
proof (cases "contains_date s")
  case True
  note g = contains_date_guard [OF True]
  from True have "regex_search match_mdy_at s \<noteq> None \<or> regex_search match_ymd_at s \<noteq> None"
    using contains_date_search [of s] by blast
  then have "parseDate mk (Some s) \<noteq> None"
    using g by (auto simp: parseDate_def split: option.splits)
  with True show ?thesis by simp
next
  case False
  then have "regex_search match_mdy_at s = None" "regex_search match_ymd_at s = None"
    using contains_date_search [of s] by blast+
  then have "parseDate mk (Some s) = None" by (simp add: parseDate_def)
  with False show ?thesis by simp
qed

lemma parseDate_mdy_first:
  assumes "\<exists>pre body post. s = pre @ body @ post \<and> mdy_format body"
  shows "\<exists>pre m d y post. s = pre @ m @ ''/'' @ d @ ''/'' @ y @ post \<and>
           digit_text 1 2 m \<and> digit_text 1 2 d \<and> digit_text 4 4 y \<and>
           parseDate mk (Some s) = Some (mk (to_number y) (to_number m - 1) (to_number d))"
proof -
  from assms have "regex_search match_mdy_at s \<noteq> None"
    using regex_search_mdy [of s] by blast
  then obtain x where "regex_search match_mdy_at s = Some x" by blast
  then obtain m d y where r: "regex_search match_mdy_at s = Some (m, d, y)" by (cases x) auto
  from regex_search_Some_mem [OF r] obtain pre t where
    t: "s = pre @ t" "(m, d, y) \<in> set (match_mdy_at t)" by blast
  then obtain post where p: "t = m @ ''/'' @ d @ ''/'' @ y @ post"
    "digit_text 1 2 m" "digit_text 1 2 d" "digit_text 4 4 y"
    unfolding set_match_mdy_at by blast
  from assms have "contains_date s" unfolding contains_date_def by blast
  from contains_date_guard [OF this] r have
    "parseDate mk (Some s) = Some (mk (to_number y) (to_number m - 1) (to_number d))"
    by (simp add: parseDate_def)
  with t(1) p show ?thesis by blast
qed

lemma parseDate_mdy_exact:
  assumes "digit_text 1 2 m" "digit_text 1 2 d" "digit_text 4 4 y"
  shows "parseDate mk (Some (m @ ''/'' @ d @ ''/'' @ y))
         = Some (mk (to_number y) (to_number m - 1) (to_number d))"
proof -
  let ?s = "m @ ''/'' @ d @ ''/'' @ y"
  have "match_mdy_at (m @ ''/'' @ d @ ''/'' @ y @ []) = [(m, d, y)]"
    using assms by (rule match_mdy_at_exact)
  then have r: "regex_search match_mdy_at ?s = Some (m, d, y)"
    by (simp add: regex_search_here)
  have "mdy_format ?s" unfolding mdy_format_def using assms by blast
  then have "contains_date ?s" unfolding contains_date_def
    by (metis append_Nil append_Nil2)
  from contains_date_guard [OF this] r show ?thesis
    by (simp add: parseDate_def)
qed

lemma match_ymd_at_exact:
  assumes "digit_text 4 4 y" "digit_text 1 2 m" "digit_text 1 2 d"
  shows "\<exists>more. match_ymd_at (y @ ''-'' @ m @ ''-'' @ d) = (y, m, d) # more"
proof -
  from assms(1) obtain p q r s where y: "y = [p, q, r, s]"
    "is_digit p" "is_digit q" "is_digit r" "is_digit s"
    unfolding digit_text_4 by blast
  from assms(2) consider a where "m = [a]" "is_digit a"
    | a b where "m = [a, b]" "is_digit a" "is_digit b"
    unfolding digit_text_1_2 by blast
  then show ?thesis
  proof cases
    case 1
    from assms(3) consider c where "d = [c]" "is_digit c"
      | c e where "d = [c, e]" "is_digit c" "is_digit e"
      unfolding digit_text_1_2 by blast
    then show ?thesis
    proof cases
      case 1
      with \<open>m = [a]\<close> \<open>is_digit a\<close> y show ?thesis
        by (simp add: match_ymd_at_def slash_not_digit digit_not_separator)
    next
      case 2
      with \<open>m = [a]\<close> \<open>is_digit a\<close> y show ?thesis
        by (simp add: match_ymd_at_def slash_not_digit digit_not_separator)
    qed
  next
    case 2
    from assms(3) consider c where "d = [c]" "is_digit c"
      | c e where "d = [c, e]" "is_digit c" "is_digit e"
      unfolding digit_text_1_2 by blast
    then show ?thesis
    proof cases
      case 1
      with \<open>m = [a, b]\<close> \<open>is_digit a\<close> \<open>is_digit b\<close> y show ?thesis
        by (simp add: match_ymd_at_def slash_not_digit digit_not_separator)
    next
      case 2
      with \<open>m = [a, b]\<close> \<open>is_digit a\<close> \<open>is_digit b\<close> y show ?thesis
        by (simp add: match_ymd_at_def slash_not_digit digit_not_separator)
    qed
  qed
qed

lemma no_slash_no_mdy:
  assumes "CHR ''/'' \<notin> set s"
  shows "regex_search match_mdy_at s = None"
proof (rule ccontr)
  assume "regex_search match_mdy_at s \<noteq> None"
  then obtain pre body post where "s = pre @ body @ post" "mdy_format body"
    using regex_search_mdy [of s] by blast
  then obtain m d y where "s = pre @ (m @ ''/'' @ d @ ''/'' @ y) @ post"
    unfolding mdy_format_def by blast
  then have "CHR ''/'' \<in> set s" by simp
  with assms show False by simp
qed

lemma digit_text_no_slash: "digit_text lo hi c \<Longrightarrow> CHR ''/'' \<notin> set c"
  using slash_not_digit(1) by (auto simp: digit_text_def list_all_iff)

lemma parseDate_ymd_exact:
  assumes "digit_text 4 4 y" "digit_text 1 2 m" "digit_text 1 2 d"
  shows "parseDate mk (Some (y @ ''-'' @ m @ ''-'' @ d))
         = Some (mk (to_number y) (to_number m - 1) (to_number d))"
proof -
  let ?s = "y @ ''-'' @ m @ ''-'' @ d"
  from match_ymd_at_exact [OF assms] obtain more where
    "match_ymd_at ?s = (y, m, d) # more" by blast
  then have r: "regex_search match_ymd_at ?s = Some (y, m, d)"
    by (rule regex_search_here)
  have "CHR ''/'' \<notin> set ?s"
    using assms [THEN digit_text_no_slash] by simp
  then have n: "regex_search match_mdy_at ?s = None" by (rule no_slash_no_mdy)
  have "ymd_format ?s" unfolding ymd_format_def using assms by blast
  then have "contains_date ?s" unfolding contains_date_def
    by (metis append_Nil append_Nil2)
  from contains_date_guard [OF this] r n show ?thesis
    by (simp add: parseDate_def)
qed

lemma column_not_date: "p @ CHR ''_'' # q \<noteq> ''AssessmentDate''"
proof
  assume "p @ CHR ''_'' # q = ''AssessmentDate''"
  then have "set (p @ CHR ''_'' # q) = set ''AssessmentDate''" by simp
  then have "CHR ''_'' \<in> set ''AssessmentDate''" by (metis in_set_conv_decomp)
  then show False by simp
qed

lemma extractTestData_date_column:
  "extractTestData pf (row(''AssessmentDate'' := v)) prefix = extractTestData pf row prefix"
  using column_not_date [of prefix "''StandardScore''"] column_not_date [of prefix "''ScaledScore''"]
    column_not_date [of prefix "''PctRank''"] column_not_date [of prefix "''RawScore''"]
  by (simp add: extractTestData_def)

lemma process_row_date_column:
  "process_row pf mk now (row(''AssessmentDate'' := v)) =
   map (\<lambda>a. a\<lparr>date := (case parseDate mk v of None \<Rightarrow> now | Some t \<Rightarrow> t)\<rparr>)
     (process_row pf mk now row)"
  by (simp add: process_row_def extractTestData_date_column Let_def split: option.splits)

lemma process_row_unparseable:
  "parseDate mk (row ''AssessmentDate'') = None \<Longrightarrow>
   list_all (\<lambda>a. date a = now) (process_row pf mk now row)"
  by (simp add: process_row_def Let_def split: option.splits)

text \<open>
  Claim C8, as the code has it. The two patterns are not anchored: \<open>parseDate\<close> accepts a
  text exactly when some part of it has the form M/D/YYYY or YYYY-M-D (one or two digits for
  month and day, four for the year). A text that is exactly of one of the two forms gives
  that year, month and day; when a part of the form M/D/YYYY exists, the result is read
  from such a part, whatever else the text holds. A text with no such part is unparseable.
  The date text never decides whether a row is kept: changing it changes only the date of
  the record, and an unparseable date gives the record the load time as its date.
\<close>

theorem parseDate_formats:
  "(parseDate mk (Some s) \<noteq> None) = contains_date s \<and>
   (digit_text 1 2 m \<and> digit_text 1 2 d \<and> digit_text 4 4 y \<longrightarrow>
      parseDate mk (Some (m @ ''/'' @ d @ ''/'' @ y))
        = Some (mk (to_number y) (to_number m - 1) (to_number d)) \<and>
      parseDate mk (Some (y @ ''-'' @ m @ ''-'' @ d))
        = Some (mk (to_number y) (to_number m - 1) (to_number d))) \<and>
   ((\<exists>pre body post. s = pre @ body @ post \<and> mdy_format body) \<longrightarrow>
      (\<exists>pre m' d' y' post. s = pre @ m' @ ''/'' @ d' @ ''/'' @ y' @ post \<and>
         digit_text 1 2 m' \<and> digit_text 1 2 d' \<and> digit_text 4 4 y' \<and>
         parseDate mk (Some s) = Some (mk (to_number y') (to_number m' - 1) (to_number d')))) \<and>
   process_row pf mk now (row(''AssessmentDate'' := v)) =
     map (\<lambda>a. a\<lparr>date := (case parseDate mk v of None \<Rightarrow> now | Some t \<Rightarrow> t)\<rparr>)
       (process_row pf mk now row) \<and>
   (parseDate mk (row ''AssessmentDate'') = None \<longrightarrow>
      list_all (\<lambda>a. date a = now) (process_row pf mk now row)) \<and>
   processCSVData pf mk clock [row] = process_row pf mk (clock 0) row"
proof -
  have a: "(parseDate mk (Some s) \<noteq> None) = contains_date s"
    by (rule parseDate_accepts)
  have b: "digit_text 1 2 m \<and> digit_text 1 2 d \<and> digit_text 4 4 y \<longrightarrow>
      parseDate mk (Some (m @ ''/'' @ d @ ''/'' @ y))
        = Some (mk (to_number y) (to_number m - 1) (to_number d)) \<and>
      parseDate mk (Some (y @ ''-'' @ m @ ''-'' @ d))
        = Some (mk (to_number y) (to_number m - 1) (to_number d))"
    using parseDate_mdy_exact [of m d y mk] parseDate_ymd_exact [of y m d mk] by blast
  have c: "(\<exists>pre body post. s = pre @ body @ post \<and> mdy_format body) \<longrightarrow>
      (\<exists>pre m' d' y' post. s = pre @ m' @ ''/'' @ d' @ ''/'' @ y' @ post \<and>
         digit_text 1 2 m' \<and> digit_text 1 2 d' \<and> digit_text 4 4 y' \<and>
         parseDate mk (Some s) = Some (mk (to_number y') (to_number m' - 1) (to_number d')))"
    using parseDate_mdy_first [of s mk] by blast
  have d: "process_row pf mk now (row(''AssessmentDate'' := v)) =
     map (\<lambda>a. a\<lparr>date := (case parseDate mk v of None \<Rightarrow> now | Some t \<Rightarrow> t)\<rparr>)
       (process_row pf mk now row)"
    by (rule process_row_date_column)
  have e: "parseDate mk (row ''AssessmentDate'') = None \<longrightarrow>
      list_all (\<lambda>a. date a = now) (process_row pf mk now row)"
    using process_row_unparseable [of mk row now pf] by blast
  have f: "processCSVData pf mk clock [row] = process_row pf mk (clock 0) row"
    by (simp add: processCSVData_def)
  from a b c d e f show ?thesis by blast
qed

lemma digit_texts_sample: "digit_text 1 2 ''3''" "digit_text 1 2 ''4''" "digit_text 4 4 ''2021''"
  by (simp_all add: digit_text_def is_digit_def)

lemma sample_numbers: "to_number ''2021'' = 2021" "to_number ''3'' = 3" "to_number ''4'' = 4"
  by (simp_all add: to_number_def digit_value_def)

lemma mixed_text_has_mdy:
  "\<exists>pre body post. ''2020-1-2 or 3/4/2021'' = pre @ body @ post \<and> mdy_format body"
proof -
  have "mdy_format ''3/4/2021''"
    unfolding mdy_format_def using digit_texts_sample
    by (intro exI [of _ "''3''"] exI [of _ "''4''"] exI [of _ "''2021''"]) simp
  moreover have "''2020-1-2 or 3/4/2021'' = ''2020-1-2 or '' @ ''3/4/2021'' @ []" by simp
  ultimately show ?thesis by blast
qed

lemma undated_row_unparseable: "parseDate mkDate_sample (undated_row ''AssessmentDate'') = None"
  by (simp add: undated_row_def parseDate_def trim_def js_whitespace_def
      match_mdy_at_def match_ymd_at_def is_digit_def)

lemma undated_row_kept:
  "map studentId (process_row parseFloat_sample mkDate_sample 777 undated_row) = [''1001'']"
  by (simp add: process_row_def undated_row_def extractTestData_def parseNumber_def
      parseFloat_sample_def isNaN_def TEST_NAMES_def trim_def js_whitespace_def Let_def)

theorem parseDate_formats_witness:
  "digit_text 1 2 ''3'' \<and> digit_text 1 2 ''4'' \<and> digit_text 4 4 ''2021'' \<and>
   parseDate mkDate_sample (Some ''3/4/2021'') = Some (mkDate_sample 2021 2 4) \<and>
   parseDate mkDate_sample (Some ''2021-3-4'') = Some (mkDate_sample 2021 2 4) \<and>
   (\<exists>pre body post. ''2020-1-2 or 3/4/2021'' = pre @ body @ post \<and> mdy_format body) \<and>
   (\<exists>pre m' d' y' post. ''2020-1-2 or 3/4/2021'' = pre @ m' @ ''/'' @ d' @ ''/'' @ y' @ post \<and>
      digit_text 1 2 m' \<and> digit_text 1 2 d' \<and> digit_text 4 4 y' \<and>
      parseDate mkDate_sample (Some ''2020-1-2 or 3/4/2021'')
        = Some (mkDate_sample (to_number y') (to_number m' - 1) (to_number d'))) \<and>
   parseDate mkDate_sample (undated_row ''AssessmentDate'') = None \<and>
   map studentId (process_row parseFloat_sample mkDate_sample 777 undated_row) = [''1001''] \<and>
   list_all (\<lambda>a. date a = 777) (process_row parseFloat_sample mkDate_sample 777 undated_row)"
  using parseDate_formats [of mkDate_sample "''2020-1-2 or 3/4/2021''" "''3''" "''4''" "''2021''"
      parseFloat_sample 777 undated_row None "\<lambda>_. 777"]
    digit_texts_sample mixed_text_has_mdy undated_row_unparseable undated_row_kept
  by (simp add: sample_numbers)

text \<open>
  The claim as written accepts only texts in one of the two literal formats. A timestamp is
  in neither format, and is parsed from the date it starts with.
\<close>

theorem parseDate_timestamp_counterexample:
  "\<not> mdy_format ''2021-03-04T10:30'' \<and> \<not> ymd_format ''2021-03-04T10:30'' \<and>
   parseDate mkDate_sample (Some ''2021-03-04T10:30'') = Some (mkDate_sample 2021 2 4)"
proof -
  have a: "\<not> mdy_format ''2021-03-04T10:30''"
  proof
    assume "mdy_format ''2021-03-04T10:30''"
    then obtain m d y where "''2021-03-04T10:30'' = m @ ''/'' @ d @ ''/'' @ y"
      unfolding mdy_format_def by blast
    then have "set ''2021-03-04T10:30'' = set (m @ ''/'' @ d @ ''/'' @ y)" by simp
    then have "CHR ''/'' \<in> set ''2021-03-04T10:30''" by simp
    then show False by simp
  qed
  have b: "\<not> ymd_format ''2021-03-04T10:30''"
  proof
    assume "ymd_format ''2021-03-04T10:30''"
    then obtain y m d where e: "''2021-03-04T10:30'' = y @ ''-'' @ m @ ''-'' @ d"
      and dt: "list_all is_digit y" "list_all is_digit m" "list_all is_digit d"
      unfolding ymd_format_def digit_text_def by blast
    from e have "set ''2021-03-04T10:30'' = set (y @ ''-'' @ m @ ''-'' @ d)" by simp
    moreover have "CHR ''T'' \<in> set ''2021-03-04T10:30''" by simp
    ultimately have "CHR ''T'' \<in> set (y @ ''-'' @ m @ ''-'' @ d)" by simp
    then have "CHR ''T'' \<in> set y \<or> CHR ''T'' \<in> set m \<or> CHR ''T'' \<in> set d" by auto
    with dt have "is_digit (CHR ''T'')" by (auto simp: list_all_iff)
    then show False by (simp add: is_digit_def)
  qed
  have c: "parseDate mkDate_sample (Some ''2021-03-04T10:30'') = Some (mkDate_sample 2021 2 4)"
    by (simp add: parseDate_def trim_def js_whitespace_def match_mdy_at_def match_ymd_at_def
        is_digit_def to_number_def digit_value_def)
  from a b c show ?thesis by blast
qed

end
